theory Spec2Isabelle
  imports Complex_Main "HOL-Library.Sublist"
begin

section \<open>The package's error type\<close>

text \<open>
  \<^verbatim>\<open>type Error string\<close>: an error of the package is a string; the six constants are
  the values the package names.
\<close>

datatype Error = Error string

definition NotFound :: Error where
  "NotFound = Error ''Postcode Not Found''"

definition BadRequest :: Error where
  "BadRequest = Error ''Bad Request''"

definition ServerError :: Error where
  "ServerError = Error ''Server Error''"

definition NoResults :: Error where
  "NoResults = Error ''No Results''"

definition MultipleResults :: Error where
  "MultipleResults = Error ''Multiple Results''"

definition InvalidError :: Error where
  "InvalidError = Error ''Invalid Error''"

text \<open>\<^verbatim>\<open>func errorFromHTTPCode(code int) Error\<close>: a switch with a default branch.\<close>

definition errorFromHTTPCode :: "int \<Rightarrow> Error" where
  "errorFromHTTPCode code =
     (if code = 400 then BadRequest
      else if code = 404 then NotFound
      else if code = 500 then ServerError
      else InvalidError)"

text \<open>\<^verbatim>\<open>func (e Error) Error() string\<close>: the message of each value.\<close>

definition Error_Error :: "Error \<Rightarrow> string" where
  "Error_Error e =
     (if e = NotFound then ''postcodes.io could not find the requested information (404)''
      else if e = BadRequest then ''postcodes.io rejected the request (400)''
      else if e = ServerError then ''postcodes.io encountered an error (500)''
      else if e = NoResults then ''postcodes.io returned no results for the request''
      else if e = MultipleResults then ''postcodes.io returned multiple results for the request''
      else ''Invalid Error: Please report to poscodesio Go package maintainer'')"

section \<open>Error values\<close>

text \<open>
  Go's \<^verbatim>\<open>error\<close> is an interface; the values that reach this package are the package's
  own \<open>Error\<close>, the strings of \<^verbatim>\<open>errors.New\<close>, and errors of the standard library:
  \<^verbatim>\<open>io.EOF\<close>, \<^verbatim>\<open>io.ErrUnexpectedEOF\<close>, the decoder's \<^verbatim>\<open>*json.SyntaxError\<close> and
  \<^verbatim>\<open>*json.UnmarshalTypeError\<close> (its \<^verbatim>\<open>Value\<close> and the Go type it could not fill),
  net/url's \<^verbatim>\<open>EscapeError\<close>, \<^verbatim>\<open>InvalidHostError\<close>, its "invalid port" error and
  \<^verbatim>\<open>*url.Error{Op, URL, Err}\<close>, and whatever else the transport or the body's reader
  returns (\<open>OtherError\<close>, named by its message).
\<close>

datatype error =
    PkgError Error
  | ErrorString string
  | EOF
  | ErrUnexpectedEOF
  | SyntaxError string
  | UnmarshalTypeError string string
  | EscapeError string
  | InvalidHostError string
  | InvalidPortError string
  | URLError string string error
  | OtherError string

text \<open>
  \<^verbatim>\<open>err.Error()\<close>. The messages of the package's own errors and of \<^verbatim>\<open>errors.New\<close>
  are fixed by the source. The standard library words its own messages (with
  \<^verbatim>\<open>strconv.Quote\<close> and type names); that wording is the parameter \<open>libmsg\<close>.
\<close>

definition error_Error :: "(error \<Rightarrow> string) \<Rightarrow> error \<Rightarrow> string" where
  "error_Error libmsg err =
     (case err of
        PkgError e \<Rightarrow> Error_Error e
      | ErrorString s \<Rightarrow> s
      | _ \<Rightarrow> libmsg err)"

section \<open>The standard library's net/url, as \<open>geocodeURL\<close> uses it\<close>

text \<open>
  \<^verbatim>\<open>url.ParseRequestURI\<close> and \<^verbatim>\<open>(*URL).String\<close> are not code of this package; the
  definitions below follow the algorithms of Go's net/url (Go 1.22): strings are byte
  sequences, \<^verbatim>\<open>len\<close> counts bytes.
\<close>

datatype encoding =
  encodePath | encodePathSegment | encodeHost | encodeZone | encodeUserPassword |
  encodeQueryComponent | encodeFragment

definition byte :: "char \<Rightarrow> nat" where
  "byte c = of_char c"

definition isalpha :: "char \<Rightarrow> bool" where
  "isalpha c = ((97 \<le> byte c \<and> byte c \<le> 122) \<or> (65 \<le> byte c \<and> byte c \<le> 90))"

definition isdigit :: "char \<Rightarrow> bool" where
  "isdigit c = (48 \<le> byte c \<and> byte c \<le> 57)"

definition ishex :: "char \<Rightarrow> bool" where
  "ishex c =
     (isdigit c \<or> (97 \<le> byte c \<and> byte c \<le> 102) \<or> (65 \<le> byte c \<and> byte c \<le> 70))"

text \<open>\<^verbatim>\<open>unhex\<close> is only called on bytes that passed \<^verbatim>\<open>ishex\<close>.\<close>

definition unhex :: "char \<Rightarrow> nat" where
  "unhex c =
     (if isdigit c then byte c - 48
      else if 97 \<le> byte c \<and> byte c \<le> 102 then byte c - 97 + 10
      else if 65 \<le> byte c \<and> byte c \<le> 70 then byte c - 65 + 10
      else 0)"

definition upperhex :: "nat \<Rightarrow> char" where
  "upperhex n = ''0123456789ABCDEF'' ! n"

definition shouldEscape :: "char \<Rightarrow> encoding \<Rightarrow> bool" where
  "shouldEscape c mode =
     (if isalpha c \<or> isdigit c then False
      else if (mode = encodeHost \<or> mode = encodeZone) \<and>
              c \<in> set ''!$&'()*+,;=:[]<>\"'' then False
      else if c \<in> set ''-_.~'' then False
      else if c \<in> set ''$&+,/:;=?@'' \<and> mode = encodePath then c = CHR ''?''
      else if c \<in> set ''$&+,/:;=?@'' \<and> mode = encodePathSegment then c \<in> set ''/;,?''
      else if c \<in> set ''$&+,/:;=?@'' \<and> mode = encodeUserPassword then c \<in> set ''@/?:''
      else if c \<in> set ''$&+,/:;=?@'' \<and> mode = encodeQueryComponent then True
      else if c \<in> set ''$&+,/:;=?@'' \<and> mode = encodeFragment then False
      else if mode = encodeFragment \<and> c \<in> set ''!()*'' then False
      else True)"

fun escape :: "string \<Rightarrow> encoding \<Rightarrow> string" where
  "escape [] mode = []"
| "escape (c # s) mode =
     (if c = CHR '' '' \<and> mode = encodeQueryComponent then CHR ''+'' # escape s mode
      else if shouldEscape c mode then
        CHR ''%'' # upperhex (byte c div 16) # upperhex (byte c mod 16) # escape s mode
      else c # escape s mode)"

text \<open>
  \<^verbatim>\<open>unescape\<close> validates the whole string before it decodes; the error is the one of
  the first malformed place, which a single pass from the left finds as well.
\<close>

fun unescape :: "string \<Rightarrow> encoding \<Rightarrow> error + string" where
  "unescape [] mode = Inr []"
| "unescape (c # s) mode =
     (if c = CHR ''%'' then
        (case s of
           a # b # t \<Rightarrow>
             if \<not> ishex a \<or> \<not> ishex b then Inl (EscapeError (take 3 (c # s)))
             else if mode = encodeHost \<and> unhex a < 8 \<and> [c, a, b] \<noteq> ''%25'' then
               Inl (EscapeError [c, a, b])
             else if mode = encodeZone \<and> [c, a, b] \<noteq> ''%25'' \<and>
                     char_of (unhex a * 16 + unhex b) \<noteq> CHR '' '' \<and>
                     shouldEscape (char_of (unhex a * 16 + unhex b)) encodeHost then
               Inl (EscapeError [c, a, b])
             else
               (case unescape t mode of
                  Inl e \<Rightarrow> Inl e
                | Inr r \<Rightarrow> Inr (char_of (unhex a * 16 + unhex b) # r))
         | _ \<Rightarrow> Inl (EscapeError (take 3 (c # s))))
      else if c \<noteq> CHR ''+'' \<and> (mode = encodeHost \<or> mode = encodeZone) \<and> byte c < 128 \<and>
              shouldEscape c encodeHost then
        Inl (InvalidHostError [c])
      else
        (case unescape s mode of
           Inl e \<Rightarrow> Inl e
         | Inr r \<Rightarrow>
             Inr ((if c = CHR ''+'' \<and> mode = encodeQueryComponent then CHR '' '' else c) # r)))"

definition validEncoded :: "string \<Rightarrow> encoding \<Rightarrow> bool" where
  "validEncoded s mode =
     list_all (\<lambda>c. c \<in> set ''!$&'()*+,;=:@[]%'' \<or> \<not> shouldEscape c mode) s"

record Userinfo =
  username :: string
  password :: string
  passwordSet :: bool

record URL =
  Scheme :: string
  Opaque :: string
  User :: "Userinfo option"
  Host :: string
  Path :: string
  RawPath :: string
  OmitHost :: bool
  ForceQuery :: bool
  RawQuery :: string
  Fragment :: string
  RawFragment :: string

definition emptyURL :: URL where
  "emptyURL = \<lparr>Scheme = [], Opaque = [], User = None, Host = [], Path = [], RawPath = [],
     OmitHost = False, ForceQuery = False, RawQuery = [], Fragment = [], RawFragment = []\<rparr>"

text \<open>\<^verbatim>\<open>strings.Cut(s, sep)\<close> for a one-byte separator: before and after its first occurrence.\<close>

definition Cut :: "string \<Rightarrow> char \<Rightarrow> string \<times> string" where
  "Cut s sep = (takeWhile (\<lambda>c. c \<noteq> sep) s, drop 1 (dropWhile (\<lambda>c. c \<noteq> sep) s))"

text \<open>\<^verbatim>\<open>i := strings.LastIndex(s, sep)\<close>: \<^verbatim>\<open>s[:i]\<close> and \<^verbatim>\<open>s[i+1:]\<close>, or nothing when \<^verbatim>\<open>i < 0\<close>.\<close>

definition cutLast :: "string \<Rightarrow> char \<Rightarrow> (string \<times> string) option" where
  "cutLast s sep =
     (if sep \<in> set s
      then Some (rev (drop 1 (dropWhile (\<lambda>c. c \<noteq> sep) (rev s))),
                 rev (takeWhile (\<lambda>c. c \<noteq> sep) (rev s)))
      else None)"

text \<open>\<^verbatim>\<open>strings.Index(s, sub)\<close>.\<close>

fun Index :: "string \<Rightarrow> string \<Rightarrow> nat option" where
  "Index [] sub = (if sub = [] then Some 0 else None)"
| "Index (c # s) sub = (if prefix sub (c # s) then Some 0 else map_option Suc (Index s sub))"

fun getScheme_from :: "string \<Rightarrow> string \<Rightarrow> string \<Rightarrow> error + (string \<times> string)" where
  "getScheme_from rawURL pre [] = Inr ([], rawURL)"
| "getScheme_from rawURL pre (c # s) =
     (if isalpha c then getScheme_from rawURL (pre @ [c]) s
      else if isdigit c \<or> c \<in> set ''+-.'' then
        (if pre = [] then Inr ([], rawURL) else getScheme_from rawURL (pre @ [c]) s)
      else if c = CHR '':'' then
        (if pre = [] then Inl (ErrorString ''missing protocol scheme'') else Inr (pre, s))
      else Inr ([], rawURL))"

definition getScheme :: "string \<Rightarrow> error + (string \<times> string)" where
  "getScheme rawURL = getScheme_from rawURL [] rawURL"

text \<open>\<^verbatim>\<open>strings.ToLower\<close> on a scheme, whose bytes are ASCII letters, digits, +, - and dot.\<close>

definition ToLower :: "string \<Rightarrow> string" where
  "ToLower s = map (\<lambda>c. if 65 \<le> byte c \<and> byte c \<le> 90 then char_of (byte c + 32) else c) s"

definition stringContainsCTLByte :: "string \<Rightarrow> bool" where
  "stringContainsCTLByte s = list_ex (\<lambda>c. byte c < 32 \<or> byte c = 127) s"

definition validOptionalPort :: "string \<Rightarrow> bool" where
  "validOptionalPort port =
     (case port of
        [] \<Rightarrow> True
      | c # ds \<Rightarrow> c = CHR '':'' \<and> list_all isdigit ds)"

definition validUserinfo :: "string \<Rightarrow> bool" where
  "validUserinfo s =
     list_all (\<lambda>c. isalpha c \<or> isdigit c \<or> c \<in> set ''-._:~!$&'()*+,;=%@'') s"

definition parseHost :: "string \<Rightarrow> error + string" where
  "parseHost host =
     (if prefix ''['' host then
        (case cutLast host (CHR '']'') of
           None \<Rightarrow> Inl (ErrorString ''missing ']' in host'')
         | Some (lit, colonPort) \<Rightarrow>
             if \<not> validOptionalPort colonPort then Inl (InvalidPortError colonPort)
             else
               (case Index lit ''%25'' of
                  None \<Rightarrow> unescape host encodeHost
                | Some zone \<Rightarrow>
                    (case unescape (take zone host) encodeHost of
                       Inl e \<Rightarrow> Inl e
                     | Inr host1 \<Rightarrow>
                         (case unescape (drop zone lit) encodeZone of
                            Inl e \<Rightarrow> Inl e
                          | Inr host2 \<Rightarrow>
                              (case unescape (drop (length lit) host) encodeHost of
                                 Inl e \<Rightarrow> Inl e
                               | Inr host3 \<Rightarrow> Inr (host1 @ host2 @ host3))))))
      else
        (case cutLast host (CHR '':'') of
           None \<Rightarrow> unescape host encodeHost
         | Some (h, port) \<Rightarrow>
             if \<not> validOptionalPort (CHR '':'' # port)
             then Inl (InvalidPortError (CHR '':'' # port))
             else unescape host encodeHost))"

definition parseAuthority :: "string \<Rightarrow> error + (Userinfo option \<times> string)" where
  "parseAuthority authority =
     (case cutLast authority (CHR ''@'') of
        None \<Rightarrow>
          (case parseHost authority of Inl e \<Rightarrow> Inl e | Inr host \<Rightarrow> Inr (None, host))
      | Some (userinfo, h) \<Rightarrow>
          (case parseHost h of
             Inl e \<Rightarrow> Inl e
           | Inr host \<Rightarrow>
               if \<not> validUserinfo userinfo then Inl (ErrorString ''net/url: invalid userinfo'')
               else if CHR '':'' \<notin> set userinfo then
                 (case unescape userinfo encodeUserPassword of
                    Inl e \<Rightarrow> Inl e
                  | Inr n \<Rightarrow>
                      Inr (Some \<lparr>username = n, password = [], passwordSet = False\<rparr>, host))
               else
                 (case unescape (fst (Cut userinfo (CHR '':''))) encodeUserPassword of
                    Inl e \<Rightarrow> Inl e
                  | Inr n \<Rightarrow>
                      (case unescape (snd (Cut userinfo (CHR '':''))) encodeUserPassword of
                         Inl e \<Rightarrow> Inl e
                       | Inr p \<Rightarrow>
                           Inr (Some \<lparr>username = n, password = p, passwordSet = True\<rparr>,
                                host)))))"

definition setPath :: "URL \<Rightarrow> string \<Rightarrow> error + URL" where
  "setPath u p =
     (case unescape p encodePath of
        Inl e \<Rightarrow> Inl e
      | Inr path \<Rightarrow>
          Inr (u\<lparr>Path := path, RawPath := (if p = escape path encodePath then [] else p)\<rparr>))"

definition setFragment :: "URL \<Rightarrow> string \<Rightarrow> error + URL" where
  "setFragment u f =
     (case unescape f encodeFragment of
        Inl e \<Rightarrow> Inl e
      | Inr frag \<Rightarrow>
          Inr (u\<lparr>Fragment := frag,
                 RawFragment := (if f = escape frag encodeFragment then [] else f)\<rparr>))"

text \<open>
  \<^verbatim>\<open>func parse(rawURL string, viaRequest bool) (*URL, error)\<close>. \<open>force\<close> is the test
  \<^verbatim>\<open>strings.HasSuffix(rest, "?") && strings.Count(rest, "?") == 1\<close>.
\<close>

definition parse :: "string \<Rightarrow> bool \<Rightarrow> error + URL" where
  "parse rawURL viaRequest =
     (if stringContainsCTLByte rawURL then
        Inl (ErrorString ''net/url: invalid control character in URL'')
      else if rawURL = [] \<and> viaRequest then Inl (ErrorString ''empty url'')
      else if rawURL = ''*'' then Inr (emptyURL\<lparr>Path := ''*''\<rparr>)
      else
        (case getScheme rawURL of
           Inl e \<Rightarrow> Inl e
         | Inr (scheme, rest0) \<Rightarrow>
             let url0 = emptyURL\<lparr>Scheme := ToLower scheme\<rparr>;
                 force = (rest0 \<noteq> [] \<and> last rest0 = CHR ''?'' \<and>
                          count_list rest0 (CHR ''?'') = 1);
                 rest1 = (if force then butlast rest0 else fst (Cut rest0 (CHR ''?'')));
                 url1 = (if force then url0\<lparr>ForceQuery := True\<rparr>
                         else url0\<lparr>RawQuery := snd (Cut rest0 (CHR ''?''))\<rparr>)
             in
               if \<not> prefix ''/'' rest1 \<and> Scheme url1 \<noteq> [] then Inr (url1\<lparr>Opaque := rest1\<rparr>)
               else if \<not> prefix ''/'' rest1 \<and> viaRequest then
                 Inl (ErrorString ''invalid URI for request'')
               else if \<not> prefix ''/'' rest1 \<and>
                       CHR '':'' \<in> set (fst (Cut rest1 (CHR ''/''))) then
                 Inl (ErrorString ''first path segment in URL cannot contain colon'')
               else if (Scheme url1 \<noteq> [] \<or> \<not> viaRequest \<and> \<not> prefix ''///'' rest1) \<and>
                       prefix ''//'' rest1 then
                 (let authority = takeWhile (\<lambda>c. c \<noteq> CHR ''/'') (drop 2 rest1);
                      rest2 = dropWhile (\<lambda>c. c \<noteq> CHR ''/'') (drop 2 rest1)
                  in case parseAuthority authority of
                       Inl e \<Rightarrow> Inl e
                     | Inr (user, host) \<Rightarrow> setPath (url1\<lparr>User := user, Host := host\<rparr>) rest2)
               else if Scheme url1 \<noteq> [] \<and> prefix ''/'' rest1 then
                 setPath (url1\<lparr>OmitHost := True\<rparr>) rest1
               else setPath url1 rest1))"

text \<open>\<^verbatim>\<open>url.ParseRequestURI\<close>: no fragment is split off; an error is wrapped with the raw URL.\<close>

definition ParseRequestURI :: "string \<Rightarrow> error + URL" where
  "ParseRequestURI rawURL =
     (case parse rawURL True of
        Inl e \<Rightarrow> Inl (URLError ''parse'' rawURL e)
      | Inr url \<Rightarrow> Inr url)"

text \<open>\<^verbatim>\<open>url.Parse\<close>: the fragment after the first \<^verbatim>\<open>#\<close> is split off first.\<close>

definition Parse :: "string \<Rightarrow> error + URL" where
  "Parse rawURL =
     (case parse (fst (Cut rawURL (CHR ''#''))) False of
        Inl e \<Rightarrow> Inl (URLError ''parse'' (fst (Cut rawURL (CHR ''#''))) e)
      | Inr url \<Rightarrow>
          if snd (Cut rawURL (CHR ''#'')) = [] then Inr url
          else
            (case setFragment url (snd (Cut rawURL (CHR ''#''))) of
               Inl e \<Rightarrow> Inl (URLError ''parse'' rawURL e)
             | Inr url' \<Rightarrow> Inr url'))"

definition EscapedPath :: "URL \<Rightarrow> string" where
  "EscapedPath u =
     (if RawPath u \<noteq> [] \<and> validEncoded (RawPath u) encodePath \<and>
         unescape (RawPath u) encodePath = Inr (Path u)
      then RawPath u
      else if Path u = ''*'' then ''*''
      else escape (Path u) encodePath)"

definition EscapedFragment :: "URL \<Rightarrow> string" where
  "EscapedFragment u =
     (if RawFragment u \<noteq> [] \<and> validEncoded (RawFragment u) encodeFragment \<and>
         unescape (RawFragment u) encodeFragment = Inr (Fragment u)
      then RawFragment u
      else escape (Fragment u) encodeFragment)"

definition Userinfo_String :: "Userinfo \<Rightarrow> string" where
  "Userinfo_String ui =
     escape (username ui) encodeUserPassword @
     (if passwordSet ui then CHR '':'' # escape (password ui) encodeUserPassword else [])"

text \<open>\<^verbatim>\<open>func (u *URL) String() string\<close>.\<close>

definition URL_String :: "URL \<Rightarrow> string" where
  "URL_String u =
     (let scheme = (if Scheme u \<noteq> [] then Scheme u @ '':'' else []);
          auth =
            (if (Scheme u \<noteq> [] \<or> Host u \<noteq> [] \<or> User u \<noteq> None) \<and>
                \<not> (OmitHost u \<and> Host u = [] \<and> User u = None) then
               (if Host u \<noteq> [] \<or> Path u \<noteq> [] \<or> User u \<noteq> None then ''//'' else []) @
               (case User u of None \<Rightarrow> [] | Some ui \<Rightarrow> Userinfo_String ui @ ''@'') @
               (if Host u \<noteq> [] then escape (Host u) encodeHost else [])
             else []);
          path = EscapedPath u;
          body =
            (if Opaque u \<noteq> [] then Opaque u
             else
               auth @
               (if path \<noteq> [] \<and> hd path \<noteq> CHR ''/'' \<and> Host u \<noteq> [] then ''/'' else []) @
               (if scheme = [] \<and> auth = [] \<and> CHR '':'' \<in> set (fst (Cut path (CHR ''/'')))
                then ''./'' else []) @
               path)
      in scheme @ body @
         (if ForceQuery u \<or> RawQuery u \<noteq> [] then CHR ''?'' # RawQuery u else []) @
         (if Fragment u \<noteq> [] then CHR ''#'' # EscapedFragment u else []))"

section \<open>The URL builder\<close>

definition baseURL :: string where
  "baseURL = ''https://api.postcodes.io''"

text \<open>
  \<^verbatim>\<open>func geocodeURL(pc string) (result string, err error)\<close>, the later revision of the
  two in the source file (lines 277-297): the resource is chosen by \<^verbatim>\<open>len(pc) > 4\<close>.
\<close>

definition geocodeURL :: "string \<Rightarrow> string \<times> error option" where
  "geocodeURL pc =
     (let u = (if length pc > 4 then baseURL @ ''/postcodes/'' @ pc
               else baseURL @ ''/outcodes/'' @ pc)
      in case ParseRequestURI u of
           Inl err \<Rightarrow> ([], Some err)
         | Inr uri \<Rightarrow> (URL_String uri, None))"

text \<open>
  The earlier revision (lines 94-103): every input goes to \<^verbatim>\<open>/postcodes/\<close>. Its named
  result \<^verbatim>\<open>result\<close> is still the empty string when it returns the parser's error.
\<close>

definition geocodeURL_rev1 :: "string \<Rightarrow> string \<times> error option" where
  "geocodeURL_rev1 postcode =
     (case ParseRequestURI (baseURL @ ''/postcodes/'' @ postcode) of
        Inl err \<Rightarrow> ([], Some err)
      | Inr uri \<Rightarrow> (URL_String uri, None))"

section \<open>The standard library's encoding/json: reading one value\<close>

text \<open>
  \<^verbatim>\<open>json.NewDecoder(...).Decode(&payload)\<close> is not code of this package. The model
  follows Go's encoding/json: the scanner is a state machine that reads the body byte by
  byte (\<open>step\<close>, after scanner.go's state functions, with the stack of open arrays and
  objects), \<^verbatim>\<open>readValue\<close> takes the first JSON value of the stream and leaves the rest
  unread, and the value is then stored into the Go variable according to its type. Here
  the scanner also builds the value it has read (\<open>json\<close>); string literals are kept as
  written (still escaped) and numbers as their literal text, as the decoder finds them.
\<close>

datatype json =
    JNull
  | JBool bool
  | JNumber string
  | JString string
  | JArray "json list"
  | JObject "(string \<times> json) list"

datatype frame =
    FArray "json list"
  | FObjKey "(string \<times> json) list" "string option"
  | FObjVal "(string \<times> json) list" "string option"

datatype mode =
    BeginValue | BeginValueOrEmpty | BeginStringOrEmpty | BeginString
  | InString string | InStringEsc string | InStringEscU nat string
  | Neg string | N0 string | N1 string | Dot string | Dot0 string
  | E string | ESign string | E0 string
  | InLiteral string json
  | EndValue

datatype scan = Continue mode "frame list" | Done json | Failed error

definition isSpace :: "char \<Rightarrow> bool" where
  "isSpace c = (c = CHR '' '' \<or> c = CHR 0x09 \<or> c = CHR 0x0D \<or> c = CHR 0x0A)"

definition maxNestingDepth :: nat where
  "maxNestingDepth = 10000"

definition syntaxError :: "char \<Rightarrow> string \<Rightarrow> scan" where
  "syntaxError c context = Failed (SyntaxError (''invalid character '' @ [c] @ '' '' @ context))"

text \<open>
  A value is complete: it goes into the innermost open array or object, or it is the
  top-level value. (The scanner only lets a string stand where a key is expected, so the
  other cases of a key or of a value without a key do not arise.)
\<close>

fun complete :: "json \<Rightarrow> frame list \<Rightarrow> scan" where
  "complete v [] = Done v"
| "complete v (FArray es # st) = Continue EndValue (FArray (es @ [v]) # st)"
| "complete v (FObjKey ms k # st) =
     (case v of
        JString key \<Rightarrow> Continue EndValue (FObjKey ms (Some key) # st)
      | _ \<Rightarrow> Failed (SyntaxError ''object key is not a string''))"
| "complete v (FObjVal ms k # st) =
     (case k of
        Some key \<Rightarrow> Continue EndValue (FObjVal (ms @ [(key, v)]) None # st)
      | None \<Rightarrow> Failed (SyntaxError ''value without a key''))"

definition stateEndValue :: "frame list \<Rightarrow> char \<Rightarrow> scan" where
  "stateEndValue st c =
     (case st of
        [] \<Rightarrow> Failed (SyntaxError ''after top-level value'')
      | f # st' \<Rightarrow>
          if isSpace c then Continue EndValue st
          else
            (case f of
               FObjKey ms k \<Rightarrow>
                 if c = CHR '':'' then Continue BeginValue (FObjVal ms k # st')
                 else syntaxError c ''after object key''
             | FObjVal ms k \<Rightarrow>
                 if c = CHR '','' then Continue BeginString (FObjKey ms None # st')
                 else if c = CHR ''}'' then complete (JObject ms) st'
                 else syntaxError c ''after object key:value pair''
             | FArray es \<Rightarrow>
                 if c = CHR '','' then Continue BeginValue st
                 else if c = CHR '']'' then complete (JArray es) st'
                 else syntaxError c ''after array element''))"

text \<open>A number ends before the byte \<open>c\<close>, which is then read in the state after a value.\<close>

definition endNumber :: "string \<Rightarrow> frame list \<Rightarrow> char \<Rightarrow> scan" where
  "endNumber lit st c =
     (case complete (JNumber lit) st of
        Continue m st' \<Rightarrow> stateEndValue st' c
      | r \<Rightarrow> r)"

definition pushParseState :: "char \<Rightarrow> mode \<Rightarrow> frame \<Rightarrow> frame list \<Rightarrow> scan" where
  "pushParseState c m f st =
     (if length (f # st) \<le> maxNestingDepth then Continue m (f # st)
      else Failed (SyntaxError ''exceeded max depth''))"

definition stateBeginValue :: "frame list \<Rightarrow> char \<Rightarrow> scan" where
  "stateBeginValue st c =
     (if isSpace c then Continue BeginValue st
      else if c = CHR ''{'' then pushParseState c BeginStringOrEmpty (FObjKey [] None) st
      else if c = CHR ''['' then pushParseState c BeginValueOrEmpty (FArray []) st
      else if c = CHR 0x22 then Continue (InString []) st
      else if c = CHR ''-'' then Continue (Neg [c]) st
      else if c = CHR ''0'' then Continue (N0 [c]) st
      else if c = CHR ''t'' then Continue (InLiteral ''rue'' (JBool True)) st
      else if c = CHR ''f'' then Continue (InLiteral ''alse'' (JBool False)) st
      else if c = CHR ''n'' then Continue (InLiteral ''ull'' JNull) st
      else if isdigit c then Continue (N1 [c]) st
      else syntaxError c ''looking for beginning of value'')"

definition stateBeginString :: "frame list \<Rightarrow> char \<Rightarrow> scan" where
  "stateBeginString st c =
     (if isSpace c then Continue BeginString st
      else if c = CHR 0x22 then Continue (InString []) st
      else syntaxError c ''looking for beginning of object key string'')"

definition step :: "mode \<Rightarrow> frame list \<Rightarrow> char \<Rightarrow> scan" where
  "step m st c =
     (case m of
        BeginValue \<Rightarrow> stateBeginValue st c
      | BeginValueOrEmpty \<Rightarrow>
          if isSpace c then Continue BeginValueOrEmpty st
          else if c = CHR '']'' then stateEndValue st c
          else stateBeginValue st c
      | BeginStringOrEmpty \<Rightarrow>
          if isSpace c then Continue BeginStringOrEmpty st
          else if c = CHR ''}'' then
            (case st of
               FObjKey ms k # st' \<Rightarrow> stateEndValue (FObjVal ms k # st') c
             | _ \<Rightarrow> stateEndValue st c)
          else stateBeginString st c
      | BeginString \<Rightarrow> stateBeginString st c
      | InString raw \<Rightarrow>
          if c = CHR 0x22 then complete (JString raw) st
          else if c = CHR 0x5C then Continue (InStringEsc (raw @ [c])) st
          else if byte c < 32 then syntaxError c ''in string literal''
          else Continue (InString (raw @ [c])) st
      | InStringEsc raw \<Rightarrow>
          if c \<in> set ''bfnrt'' \<or> c = CHR 0x5C \<or> c = CHR ''/'' \<or> c = CHR 0x22
          then Continue (InString (raw @ [c])) st
          else if c = CHR ''u'' then Continue (InStringEscU 0 (raw @ [c])) st
          else syntaxError c ''in string escape code''
      | InStringEscU n raw \<Rightarrow>
          if ishex c then
            (if n < 3 then Continue (InStringEscU (Suc n) (raw @ [c])) st
             else Continue (InString (raw @ [c])) st)
          else syntaxError c ''in u hexadecimal character escape''
      | Neg lit \<Rightarrow>
          if c = CHR ''0'' then Continue (N0 (lit @ [c])) st
          else if isdigit c then Continue (N1 (lit @ [c])) st
          else syntaxError c ''in numeric literal''
      | N1 lit \<Rightarrow>
          if isdigit c then Continue (N1 (lit @ [c])) st
          else if c = CHR ''.'' then Continue (Dot (lit @ [c])) st
          else if c = CHR ''e'' \<or> c = CHR ''E'' then Continue (E (lit @ [c])) st
          else endNumber lit st c
      | N0 lit \<Rightarrow>
          if c = CHR ''.'' then Continue (Dot (lit @ [c])) st
          else if c = CHR ''e'' \<or> c = CHR ''E'' then Continue (E (lit @ [c])) st
          else endNumber lit st c
      | Dot lit \<Rightarrow>
          if isdigit c then Continue (Dot0 (lit @ [c])) st
          else syntaxError c ''after decimal point in numeric literal''
      | Dot0 lit \<Rightarrow>
          if isdigit c then Continue (Dot0 (lit @ [c])) st
          else if c = CHR ''e'' \<or> c = CHR ''E'' then Continue (E (lit @ [c])) st
          else endNumber lit st c
      | E lit \<Rightarrow>
          if c = CHR ''+'' \<or> c = CHR ''-'' then Continue (ESign (lit @ [c])) st
          else if isdigit c then Continue (E0 (lit @ [c])) st
          else syntaxError c ''in exponent of numeric literal''
      | ESign lit \<Rightarrow>
          if isdigit c then Continue (E0 (lit @ [c])) st
          else syntaxError c ''in exponent of numeric literal''
      | E0 lit \<Rightarrow>
          if isdigit c then Continue (E0 (lit @ [c])) st
          else endNumber lit st c
      | InLiteral rest v \<Rightarrow>
          (case rest of
             [] \<Rightarrow> Failed (SyntaxError ''in literal'')
           | x # xs \<Rightarrow>
               if c = x then (if xs = [] then complete v st else Continue (InLiteral xs v) st)
               else syntaxError c ''in literal'')
      | EndValue \<Rightarrow> stateEndValue st c)"

text \<open>At the end of the input the decoder lets the scanner see one space.\<close>

definition atEOF :: "mode \<Rightarrow> frame list \<Rightarrow> error + json" where
  "atEOF m st =
     (case step m st (CHR '' '') of
        Done v \<Rightarrow> Inr v
      | _ \<Rightarrow> if m = BeginValue \<and> st = [] then Inl EOF else Inl ErrUnexpectedEOF)"

fun readValue_from :: "mode \<Rightarrow> frame list \<Rightarrow> string \<Rightarrow> error + json" where
  "readValue_from m st [] = atEOF m st"
| "readValue_from m st (c # s) =
     (case step m st c of
        Continue m' st' \<Rightarrow> readValue_from m' st' s
      | Done v \<Rightarrow> Inr v
      | Failed e \<Rightarrow> Inl e)"

definition readValue :: "string \<Rightarrow> error + json" where
  "readValue buf = readValue_from BeginValue [] buf"

section \<open>encoding/json: string literals\<close>

text \<open>
  \<^verbatim>\<open>unquote\<close> on the text between the quotes of a literal the scanner accepted: escapes
  are replaced, a \<^verbatim>\<open>\\u\<close> escape becomes the UTF-8 encoding of its code point (a
  surrogate pair one code point, a lone surrogate U+FFFD), and every byte that is not
  part of well-formed UTF-8 becomes U+FFFD.
\<close>

definition hexval :: "string \<Rightarrow> nat" where
  "hexval s = foldl (\<lambda>a c. 16 * a + unhex c) 0 s"

definition getu4 :: "string \<Rightarrow> nat option" where
  "getu4 s =
     (case s of
        b # u # r \<Rightarrow>
          if b = CHR 0x5C \<and> u = CHR ''u'' \<and> 4 \<le> length r \<and> list_all ishex (take 4 r)
          then Some (hexval (take 4 r)) else None
      | _ \<Rightarrow> None)"

definition replacementChar :: string where
  "replacementChar = [CHR 0xEF, CHR 0xBF, CHR 0xBD]"

definition EncodeRune :: "nat \<Rightarrow> string" where
  "EncodeRune r =
     (if r < 128 then [char_of r]
      else if r < 2048 then [char_of (192 + r div 64), char_of (128 + r mod 64)]
      else if (55296 \<le> r \<and> r < 57344) \<or> 1114111 < r then replacementChar
      else if r < 65536 then
        [char_of (224 + r div 4096), char_of (128 + (r div 64) mod 64), char_of (128 + r mod 64)]
      else
        [char_of (240 + r div 262144), char_of (128 + (r div 4096) mod 64),
         char_of (128 + (r div 64) mod 64), char_of (128 + r mod 64)])"

definition cont :: "char \<Rightarrow> bool" where
  "cont c = (128 \<le> byte c \<and> byte c \<le> 191)"

text \<open>The length of the well-formed UTF-8 sequence at the head of \<open>s\<close>, or 0.\<close>

definition utf8len :: "string \<Rightarrow> nat" where
  "utf8len s =
     (case s of
        [] \<Rightarrow> 0
      | b0 # r \<Rightarrow>
          if byte b0 < 128 then 1
          else if 194 \<le> byte b0 \<and> byte b0 \<le> 223 then
            (case r of b1 # _ \<Rightarrow> if cont b1 then 2 else 0 | _ \<Rightarrow> 0)
          else if 224 \<le> byte b0 \<and> byte b0 \<le> 239 then
            (case r of
               b1 # b2 # _ \<Rightarrow>
                 if cont b1 \<and> cont b2 \<and> (if byte b0 = 224 then 160 \<le> byte b1 else True) \<and>
                    (if byte b0 = 237 then byte b1 \<le> 159 else True)
                 then 3 else 0
             | _ \<Rightarrow> 0)
          else if 240 \<le> byte b0 \<and> byte b0 \<le> 244 then
            (case r of
               b1 # b2 # b3 # _ \<Rightarrow>
                 if cont b1 \<and> cont b2 \<and> cont b3 \<and> (if byte b0 = 240 then 144 \<le> byte b1 else True) \<and>
                    (if byte b0 = 244 then byte b1 \<le> 143 else True)
                 then 4 else 0
             | _ \<Rightarrow> 0)
          else 0)"

definition unescapeChar :: "char \<Rightarrow> char" where
  "unescapeChar e =
     (if e = CHR ''b'' then CHR 0x08
      else if e = CHR ''f'' then CHR 0x0C
      else if e = CHR ''n'' then CHR 0x0A
      else if e = CHR ''r'' then CHR 0x0D
      else if e = CHR ''t'' then CHR 0x09
      else e)"

function unquote :: "string \<Rightarrow> string" where
  "unquote [] = []"
| "unquote (c # s) =
     (if c = CHR 0x5C then
        (case s of
           [] \<Rightarrow> []
         | e # t \<Rightarrow>
             if e = CHR ''u'' then
               (if 55296 \<le> hexval (take 4 t) \<and> hexval (take 4 t) < 57344 then
                  (case getu4 (drop 4 t) of
                     Some rr1 \<Rightarrow>
                       if hexval (take 4 t) < 56320 \<and> 56320 \<le> rr1 \<and> rr1 < 57344 then
                         EncodeRune ((hexval (take 4 t) - 55296) * 1024 + (rr1 - 56320) + 65536) @
                         unquote (drop 6 (drop 4 t))
                       else replacementChar @ unquote (drop 4 t)
                   | None \<Rightarrow> replacementChar @ unquote (drop 4 t))
                else EncodeRune (hexval (take 4 t)) @ unquote (drop 4 t))
             else unescapeChar e # unquote t)
      else if byte c < 128 then c # unquote s
      else if utf8len (c # s) = 0 then replacementChar @ unquote s
      else take (utf8len (c # s)) (c # s) @ unquote (drop (utf8len (c # s)) (c # s)))"
  by pat_completeness auto
termination
  by (relation "measure length") auto

section \<open>strconv: numbers\<close>

text \<open>
  A float64 that a JSON number can give is finite; it is modelled by the rational number
  it denotes exactly (so \<^verbatim>\<open>-0\<close> and \<^verbatim>\<open>0\<close> are one value, as for Go's \<^verbatim>\<open>==\<close>).
\<close>

type_synonym float64 = rat

definition digitsValue :: "string \<Rightarrow> int" where
  "digitsValue ds = foldl (\<lambda>a c. 10 * a + (int (byte c) - 48)) 0 ds"

text \<open>\<^verbatim>\<open>strconv.ParseInt(s, 10, 64)\<close> on a JSON number literal.\<close>

definition ParseInt :: "string \<Rightarrow> int option" where
  "ParseInt lit =
     (let neg = (lit \<noteq> [] \<and> hd lit = CHR ''-'');
          ds = (if neg then tl lit else lit);
          n = (if neg then - digitsValue ds else digitsValue ds)
      in if ds \<noteq> [] \<and> list_all isdigit ds \<and> - (2 ^ 63) \<le> n \<and> n < 2 ^ 63
         then Some n else None)"

text \<open>The number of bits of a positive integer.\<close>

function bitlen :: "int \<Rightarrow> int" where
  "bitlen n = (if n \<le> 0 then 0 else 1 + bitlen (n div 2))"
  by pat_completeness auto
termination
  by (relation "measure nat") auto

declare bitlen.simps [simp del]

text \<open>\<open>pow2 k\<close> is \<open>2 ^ k\<close> for \<open>k \<ge> 0\<close>.\<close>

definition pow2 :: "int \<Rightarrow> int" where
  "pow2 k = 2 ^ nat k"

text \<open>
  The float64 nearest to \<open>num / den\<close> (\<open>num \<ge> 0\<close>, \<open>den > 0\<close>; ties to even), as the
  exact rational it denotes; \<open>None\<close> when the rounded value is beyond the largest
  float64. \<open>e\<close> is the binary exponent of \<open>num / den\<close>, \<open>p\<close> the exponent of the last
  place kept (52 bits below \<open>e\<close>, never under the subnormal limit).
\<close>

definition roundFloat64 :: "int \<Rightarrow> int \<Rightarrow> float64 option" where
  "roundFloat64 num den =
     (if num = 0 then Some 0
      else
        let d = bitlen num - bitlen den;
            e = (if (if 0 \<le> d then den * pow2 d \<le> num else den \<le> num * pow2 (- d))
                 then d else d - 1);
            p = max (e - 52) (- 1074);
            N = (if 0 \<le> p then num else num * pow2 (- p));
            D = (if 0 \<le> p then den * pow2 p else den);
            q = N div D;
            r = N mod D;
            m = (if 2 * r < D then q else if D < 2 * r then q + 1
                 else if even q then q else q + 1)
        in if 1024 < bitlen m + p then None
           else if 0 \<le> p then Some (of_int (m * pow2 p))
           else Some (of_int m / of_int (pow2 (- p))))"

text \<open>\<^verbatim>\<open>strconv.ParseFloat(s, 64)\<close> on a JSON number literal; \<open>None\<close> is its range error.\<close>

definition ParseFloat :: "string \<Rightarrow> float64 option" where
  "ParseFloat lit =
     (let neg = (lit \<noteq> [] \<and> hd lit = CHR ''-'');
          body = (if neg then tl lit else lit);
          ip = takeWhile isdigit body;
          r1 = dropWhile isdigit body;
          fp = (if r1 \<noteq> [] \<and> hd r1 = CHR ''.'' then takeWhile isdigit (tl r1) else []);
          r2 = (if r1 \<noteq> [] \<and> hd r1 = CHR ''.'' then dropWhile isdigit (tl r1) else r1);
          ex = (if r2 = [] then 0
                else if hd (tl r2) = CHR ''-'' then - digitsValue (tl (tl r2))
                else if hd (tl r2) = CHR ''+'' then digitsValue (tl (tl r2))
                else digitsValue (tl r2));
          e10 = ex - int (length fp);
          M = digitsValue (ip @ fp)
      in map_option (\<lambda>x. if neg then - x else x)
           (if 0 \<le> e10 then roundFloat64 (M * 10 ^ nat e10) 1
            else roundFloat64 M (10 ^ nat (- e10))))"

section \<open>encoding/json: storing into \<^verbatim>\<open>interface{}\<close>\<close>

text \<open>
  What an empty interface holds after decoding: nil, a bool, a float64, a string, a
  slice or a map (a later duplicate key replaces the earlier entry). A number beyond
  float64 is an \<^verbatim>\<open>UnmarshalTypeError\<close>; the decoder remembers the first such error
  (\<open>firstError\<close>) and goes on.
\<close>

datatype iface =
    INil
  | IBool bool
  | IFloat float64
  | IString string
  | ISlice "iface list"
  | IMap "(string \<times> iface) list"

definition firstError :: "error option \<Rightarrow> error option \<Rightarrow> error option" where
  "firstError saved err = (case saved of None \<Rightarrow> err | Some e \<Rightarrow> Some e)"

fun valueInterface :: "json \<Rightarrow> iface \<times> error option"
  and arrayInterface :: "json list \<Rightarrow> iface list \<times> error option"
  and objectInterface :: "(string \<times> json) list \<Rightarrow> (string \<times> iface) list \<times> error option"
where
  "valueInterface JNull = (INil, None)"
| "valueInterface (JBool b) = (IBool b, None)"
| "valueInterface (JString raw) = (IString (unquote raw), None)"
| "valueInterface (JNumber lit) =
     (case ParseFloat lit of
        Some f \<Rightarrow> (IFloat f, None)
      | None \<Rightarrow> (INil, Some (UnmarshalTypeError (''number '' @ lit) ''float64'')))"
| "valueInterface (JArray vs) = (case arrayInterface vs of (xs, e) \<Rightarrow> (ISlice xs, e))"
| "valueInterface (JObject ms) = (case objectInterface ms of (m, e) \<Rightarrow> (IMap m, e))"
| "arrayInterface [] = ([], None)"
| "arrayInterface (v # vs) =
     (case valueInterface v of
        (x, e1) \<Rightarrow> (case arrayInterface vs of (xs, e2) \<Rightarrow> (x # xs, firstError e1 e2)))"
| "objectInterface [] = ([], None)"
| "objectInterface (kv # ms) =
     (case valueInterface (snd kv) of
        (x, e1) \<Rightarrow>
          (case objectInterface ms of
             (m, e2) \<Rightarrow>
               ((unquote (fst kv), x) # filter (\<lambda>p. fst p \<noteq> unquote (fst kv)) m,
                firstError e1 e2)))"

section \<open>The decode targets\<close>

text \<open>
  \<^verbatim>\<open>type geocodeResult struct\<close> of the later revision (lines 241-275), its anonymous
  \<^verbatim>\<open>Codes\<close> struct, and the anonymous envelope of \<^verbatim>\<open>decodePayload\<close>. A field whose name
  is already taken in this theory carries a prime: the fields of \<^verbatim>\<open>Codes\<close>,
  \<^verbatim>\<open>Longitude\<close> and \<^verbatim>\<open>Latitude\<close> of \<^verbatim>\<open>geocodeResult\<close> (the names are \<^verbatim>\<open>GeoPoint\<close>'s
  here), and the envelope's \<^verbatim>\<open>Error\<close>. Go's \<^verbatim>\<open>int\<close> is 64 bits wide; a field holds what
  \<^verbatim>\<open>ParseInt\<close> accepted.
\<close>

record Codes =
  Admin_district' :: string
  Admin_county' :: string
  Admin_ward' :: string
  Parish' :: string
  Ccg' :: string
  Nuts' :: string

record geocodeResult =
  Postcode :: string
  Quality :: int
  Eastings :: int
  Northings :: int
  Nhs_ha :: string
  Longitude' :: float64
  Latitude' :: float64
  Parliamentary_constituency :: string
  European_electoral_region :: string
  Primary_care_trust :: string
  Region :: string
  Lsoa :: string
  Msoa :: string
  Incode :: string
  Outcode :: string
  Admin_district :: iface
  Parish :: iface
  Admin_county :: iface
  Admin_ward :: iface
  Country :: iface
  Ccg :: string
  Nuts :: string
  Codes :: Codes

record payload =
  Status :: int
  Result :: geocodeResult
  Error' :: string

definition zeroCodes :: Codes where
  "zeroCodes = \<lparr>Admin_district' = [], Admin_county' = [], Admin_ward' = [], Parish' = [],
     Ccg' = [], Nuts' = []\<rparr>"

definition zeroResult :: geocodeResult where
  "zeroResult = \<lparr>Postcode = [], Quality = 0, Eastings = 0, Northings = 0, Nhs_ha = [],
     Longitude' = 0, Latitude' = 0, Parliamentary_constituency = [],
     European_electoral_region = [], Primary_care_trust = [], Region = [], Lsoa = [],
     Msoa = [], Incode = [], Outcode = [], Admin_district = INil, Parish = INil,
     Admin_county = INil, Admin_ward = INil, Country = INil, Ccg = [], Nuts = [],
     Codes = zeroCodes\<rparr>"

definition zeroPayload :: payload where
  "zeroPayload = \<lparr>Status = 0, Result = zeroResult, Error' = []\<rparr>"

section \<open>encoding/json: field names\<close>

text \<open>
  A key selects the field whose JSON name is equal to it under Unicode simple case
  folding (\<^verbatim>\<open>foldName\<close>): ASCII letters without regard to case, U+017F as \<^verbatim>\<open>S\<close> and
  U+212A as \<^verbatim>\<open>K\<close>. No other rune folds to an ASCII letter; its bytes are kept.
\<close>

fun foldName :: "string \<Rightarrow> string" where
  "foldName [] = []"
| "foldName (c # s) =
     (if 97 \<le> byte c \<and> byte c \<le> 122 then char_of (byte c - 32) # foldName s
      else if c = CHR 0xC5 \<and> take 1 s = [CHR 0xBF] then CHR ''S'' # foldName (drop 1 s)
      else if c = CHR 0xE2 \<and> take 2 s = [CHR 0x84, CHR 0xAA] then CHR ''K'' # foldName (drop 2 s)
      else c # foldName s)"

section \<open>encoding/json: storing into the typed fields\<close>

text \<open>
  \<^verbatim>\<open>null\<close> leaves a string, a number or a struct as it is; a value of the wrong kind
  leaves the field as it is and is an \<^verbatim>\<open>UnmarshalTypeError\<close> (with the JSON kind and a
  short name of the Go type); a key that names no field is skipped; the members of an
  object are stored in their order, so a repeated key is stored again.
\<close>

definition jsonKind :: "json \<Rightarrow> string" where
  "jsonKind v =
     (case v of
        JNull \<Rightarrow> ''null''
      | JBool b \<Rightarrow> ''bool''
      | JNumber lit \<Rightarrow> ''number''
      | JString raw \<Rightarrow> ''string''
      | JArray vs \<Rightarrow> ''array''
      | JObject ms \<Rightarrow> ''object'')"

definition storeString :: "json \<Rightarrow> string \<Rightarrow> string \<times> error option" where
  "storeString v old =
     (case v of
        JString raw \<Rightarrow> (unquote raw, None)
      | JNull \<Rightarrow> (old, None)
      | _ \<Rightarrow> (old, Some (UnmarshalTypeError (jsonKind v) ''string'')))"

definition storeInt :: "json \<Rightarrow> int \<Rightarrow> int \<times> error option" where
  "storeInt v old =
     (case v of
        JNumber lit \<Rightarrow>
          (case ParseInt lit of
             Some n \<Rightarrow> (n, None)
           | None \<Rightarrow> (old, Some (UnmarshalTypeError (''number '' @ lit) ''int'')))
      | JNull \<Rightarrow> (old, None)
      | _ \<Rightarrow> (old, Some (UnmarshalTypeError (jsonKind v) ''int'')))"

definition storeFloat :: "json \<Rightarrow> float64 \<Rightarrow> float64 \<times> error option" where
  "storeFloat v old =
     (case v of
        JNumber lit \<Rightarrow>
          (case ParseFloat lit of
             Some f \<Rightarrow> (f, None)
           | None \<Rightarrow> (old, Some (UnmarshalTypeError (''number '' @ lit) ''float64'')))
      | JNull \<Rightarrow> (old, None)
      | _ \<Rightarrow> (old, Some (UnmarshalTypeError (jsonKind v) ''float64'')))"

definition storeCodesField :: "string \<times> json \<Rightarrow> Codes \<Rightarrow> Codes \<times> error option" where
  "storeCodesField kv c =
     (let name = foldName (unquote (fst kv)); v = snd kv in
      if name = ''ADMIN_DISTRICT'' then
        (case storeString v (Admin_district' c) of (x, e) \<Rightarrow> (c\<lparr>Admin_district' := x\<rparr>, e))
      else if name = ''ADMIN_COUNTY'' then
        (case storeString v (Admin_county' c) of (x, e) \<Rightarrow> (c\<lparr>Admin_county' := x\<rparr>, e))
      else if name = ''ADMIN_WARD'' then
        (case storeString v (Admin_ward' c) of (x, e) \<Rightarrow> (c\<lparr>Admin_ward' := x\<rparr>, e))
      else if name = ''PARISH'' then
        (case storeString v (Parish' c) of (x, e) \<Rightarrow> (c\<lparr>Parish' := x\<rparr>, e))
      else if name = ''CCG'' then
        (case storeString v (Ccg' c) of (x, e) \<Rightarrow> (c\<lparr>Ccg' := x\<rparr>, e))
      else if name = ''NUTS'' then
        (case storeString v (Nuts' c) of (x, e) \<Rightarrow> (c\<lparr>Nuts' := x\<rparr>, e))
      else (c, None))"

fun storeCodesFields :: "(string \<times> json) list \<Rightarrow> Codes \<Rightarrow> Codes \<times> error option" where
  "storeCodesFields [] c = (c, None)"
| "storeCodesFields (kv # ms) c =
     (case storeCodesField kv c of
        (c', e1) \<Rightarrow> (case storeCodesFields ms c' of (c'', e2) \<Rightarrow> (c'', firstError e1 e2)))"

definition storeCodes :: "json \<Rightarrow> Codes \<Rightarrow> Codes \<times> error option" where
  "storeCodes v old =
     (case v of
        JObject ms \<Rightarrow> storeCodesFields ms old
      | JNull \<Rightarrow> (old, None)
      | _ \<Rightarrow> (old, Some (UnmarshalTypeError (jsonKind v) ''struct'')))"

definition storeResultField ::
  "string \<times> json \<Rightarrow> geocodeResult \<Rightarrow> geocodeResult \<times> error option" where
  "storeResultField kv r =
     (let name = foldName (unquote (fst kv)); v = snd kv in
      if name = ''POSTCODE'' then
        (case storeString v (Postcode r) of (x, e) \<Rightarrow> (r\<lparr>Postcode := x\<rparr>, e))
      else if name = ''QUALITY'' then
        (case storeInt v (Quality r) of (x, e) \<Rightarrow> (r\<lparr>Quality := x\<rparr>, e))
      else if name = ''EASTINGS'' then
        (case storeInt v (Eastings r) of (x, e) \<Rightarrow> (r\<lparr>Eastings := x\<rparr>, e))
      else if name = ''NORTHINGS'' then
        (case storeInt v (Northings r) of (x, e) \<Rightarrow> (r\<lparr>Northings := x\<rparr>, e))
      else if name = ''NHS_HA'' then
        (case storeString v (Nhs_ha r) of (x, e) \<Rightarrow> (r\<lparr>Nhs_ha := x\<rparr>, e))
      else if name = ''LONGITUDE'' then
        (case storeFloat v (Longitude' r) of (x, e) \<Rightarrow> (r\<lparr>Longitude' := x\<rparr>, e))
      else if name = ''LATITUDE'' then
        (case storeFloat v (Latitude' r) of (x, e) \<Rightarrow> (r\<lparr>Latitude' := x\<rparr>, e))
      else if name = ''PARLIAMENTARY_CONSTITUENCY'' then
        (case storeString v (Parliamentary_constituency r) of
           (x, e) \<Rightarrow> (r\<lparr>Parliamentary_constituency := x\<rparr>, e))
      else if name = ''EUROPEAN_ELECTORAL_REGION'' then
        (case storeString v (European_electoral_region r) of
           (x, e) \<Rightarrow> (r\<lparr>European_electoral_region := x\<rparr>, e))
      else if name = ''PRIMARY_CARE_TRUST'' then
        (case storeString v (Primary_care_trust r) of
           (x, e) \<Rightarrow> (r\<lparr>Primary_care_trust := x\<rparr>, e))
      else if name = ''REGION'' then
        (case storeString v (Region r) of (x, e) \<Rightarrow> (r\<lparr>Region := x\<rparr>, e))
      else if name = ''LSOA'' then
        (case storeString v (Lsoa r) of (x, e) \<Rightarrow> (r\<lparr>Lsoa := x\<rparr>, e))
      else if name = ''MSOA'' then
        (case storeString v (Msoa r) of (x, e) \<Rightarrow> (r\<lparr>Msoa := x\<rparr>, e))
      else if name = ''INCODE'' then
        (case storeString v (Incode r) of (x, e) \<Rightarrow> (r\<lparr>Incode := x\<rparr>, e))
      else if name = ''OUTCODE'' then
        (case storeString v (Outcode r) of (x, e) \<Rightarrow> (r\<lparr>Outcode := x\<rparr>, e))
      else if name = ''ADMIN_DISTRICT'' then
        (case valueInterface v of (x, e) \<Rightarrow> (r\<lparr>Admin_district := x\<rparr>, e))
      else if name = ''PARISH'' then
        (case valueInterface v of (x, e) \<Rightarrow> (r\<lparr>Parish := x\<rparr>, e))
      else if name = ''ADMIN_COUNTY'' then
        (case valueInterface v of (x, e) \<Rightarrow> (r\<lparr>Admin_county := x\<rparr>, e))
      else if name = ''ADMIN_WARD'' then
        (case valueInterface v of (x, e) \<Rightarrow> (r\<lparr>Admin_ward := x\<rparr>, e))
      else if name = ''COUNTRY'' then
        (case valueInterface v of (x, e) \<Rightarrow> (r\<lparr>Country := x\<rparr>, e))
      else if name = ''CCG'' then
        (case storeString v (Ccg r) of (x, e) \<Rightarrow> (r\<lparr>Ccg := x\<rparr>, e))
      else if name = ''NUTS'' then
        (case storeString v (Nuts r) of (x, e) \<Rightarrow> (r\<lparr>Nuts := x\<rparr>, e))
      else if name = ''CODES'' then
        (case storeCodes v (Codes r) of (x, e) \<Rightarrow> (r\<lparr>Codes := x\<rparr>, e))
      else (r, None))"

fun storeResultFields ::
  "(string \<times> json) list \<Rightarrow> geocodeResult \<Rightarrow> geocodeResult \<times> error option" where
  "storeResultFields [] r = (r, None)"
| "storeResultFields (kv # ms) r =
     (case storeResultField kv r of
        (r', e1) \<Rightarrow> (case storeResultFields ms r' of (r'', e2) \<Rightarrow> (r'', firstError e1 e2)))"

definition storeResult :: "json \<Rightarrow> geocodeResult \<Rightarrow> geocodeResult \<times> error option" where
  "storeResult v old =
     (case v of
        JObject ms \<Rightarrow> storeResultFields ms old
      | JNull \<Rightarrow> (old, None)
      | _ \<Rightarrow> (old, Some (UnmarshalTypeError (jsonKind v) ''postcodesio.geocodeResult'')))"

definition storePayloadField :: "string \<times> json \<Rightarrow> payload \<Rightarrow> payload \<times> error option" where
  "storePayloadField kv p =
     (let name = foldName (unquote (fst kv)); v = snd kv in
      if name = ''STATUS'' then
        (case storeInt v (Status p) of (x, e) \<Rightarrow> (p\<lparr>Status := x\<rparr>, e))
      else if name = ''RESULT'' then
        (case storeResult v (Result p) of (x, e) \<Rightarrow> (p\<lparr>Result := x\<rparr>, e))
      else if name = ''ERROR'' then
        (case storeString v (Error' p) of (x, e) \<Rightarrow> (p\<lparr>Error' := x\<rparr>, e))
      else (p, None))"

fun storePayloadFields :: "(string \<times> json) list \<Rightarrow> payload \<Rightarrow> payload \<times> error option" where
  "storePayloadFields [] p = (p, None)"
| "storePayloadFields (kv # ms) p =
     (case storePayloadField kv p of
        (p', e1) \<Rightarrow> (case storePayloadFields ms p' of (p'', e2) \<Rightarrow> (p'', firstError e1 e2)))"

definition unmarshal :: "json \<Rightarrow> payload \<Rightarrow> payload \<times> error option" where
  "unmarshal v old =
     (case v of
        JObject ms \<Rightarrow> storePayloadFields ms old
      | JNull \<Rightarrow> (old, None)
      | _ \<Rightarrow> (old, Some (UnmarshalTypeError (jsonKind v) ''struct'')))"

definition Decode :: "string \<Rightarrow> payload \<Rightarrow> payload \<times> error option" where
  "Decode buf v =
     (case readValue buf of
        Inl err \<Rightarrow> (v, Some err)
      | Inr j \<Rightarrow> unmarshal j v)"

section \<open>The response decoder and the public entry point\<close>

text \<open>
  An \<^verbatim>\<open>*http.Response\<close> as \<open>Geocode\<close> uses it: the status code, and what
  \<^verbatim>\<open>ioutil.ReadAll(r.Body)\<close> gives, the bytes of the body or the reader's error.
\<close>

record Response =
  StatusCode :: int
  Body :: "error + string"

text \<open>
  \<^verbatim>\<open>func decodePayload(r *http.Response) (geocodeResult, error)\<close>, lines 299-335.
  \<open>libmsg\<close> words the messages of the standard library's errors.
\<close>

definition decodePayload :: "(error \<Rightarrow> string) \<Rightarrow> Response \<Rightarrow> geocodeResult \<times> error option" where
  "decodePayload libmsg r =
     (case Body r of
        Inl err \<Rightarrow>
          (zeroResult,
           Some (ErrorString (''could not read http response body: '' @ error_Error libmsg err)))
      | Inr body \<Rightarrow>
          (case Decode body zeroPayload of
             (payload, err0) \<Rightarrow>
               let err1 = (if err0 = Some EOF then None else err0);
                   err2 = (if err1 = None \<and> Error' payload \<noteq> []
                           then Some (ErrorString (Error' payload)) else err1);
                   err3 = (if err2 = None \<and> Status payload \<noteq> 200
                           then Some (PkgError (errorFromHTTPCode (Status payload))) else err2)
               in (Result payload, err3)))"

text \<open>\<^verbatim>\<open>func decorateGeocodingError(err error) error\<close>.\<close>

definition decorateGeocodingError :: "(error \<Rightarrow> string) \<Rightarrow> error \<Rightarrow> error" where
  "decorateGeocodingError libmsg err =
     ErrorString (''postcodes.io: could not geocode postcode: '' @ error_Error libmsg err)"

record GeoPoint =
  Longitude :: float64
  Latitude :: float64

text \<open>
  \<^verbatim>\<open>func Geocode(postcode string) (pt GeoPoint, err error)\<close>, lines 348-374. The
  transport \<^verbatim>\<open>http.Get\<close> is the parameter \<open>http_Get\<close>; the three early returns give
  back the named result \<^verbatim>\<open>pt\<close>, which is still zero; \<^verbatim>\<open>defer r.Body.Close()\<close> has no
  part in the results.
\<close>

definition Geocode ::
  "(error \<Rightarrow> string) \<Rightarrow> (string \<Rightarrow> error + Response) \<Rightarrow> string \<Rightarrow> GeoPoint \<times> error option" where
  "Geocode libmsg http_Get postcode =
     (case geocodeURL postcode of
        (url, Some err) \<Rightarrow>
          (\<lparr>Longitude = 0, Latitude = 0\<rparr>, Some (decorateGeocodingError libmsg err))
      | (url, None) \<Rightarrow>
          (case http_Get url of
             Inl err \<Rightarrow>
               (\<lparr>Longitude = 0, Latitude = 0\<rparr>, Some (decorateGeocodingError libmsg err))
           | Inr r \<Rightarrow>
               if StatusCode r \<noteq> 200 then
                 (\<lparr>Longitude = 0, Latitude = 0\<rparr>,
                  Some (decorateGeocodingError libmsg (PkgError (errorFromHTTPCode (StatusCode r)))))
               else
                 (case decodePayload libmsg r of
                    (result, err) \<Rightarrow>
                      (\<lparr>Longitude = Longitude' result, Latitude = Latitude' result\<rparr>,
                       map_option (decorateGeocodingError libmsg) err))))"

section \<open>Auxiliary notions for the URL builder's proofs\<close>

text \<open>
  \<^verbatim>\<open>parse\<close> splits what follows the resource prefix at the first \<^verbatim>\<open>?\<close>: the part
  before it is the (still escaped) path, the part after it the raw query; \<open>forceQ\<close> is
  the case of a lone \<^verbatim>\<open>?\<close> at the very end. \<open>builtURL\<close> is the URL value the parser
  returns for prefix \<open>p\<close> and input \<open>pc\<close> whose path part unescapes to \<open>path\<close>;
  \<open>escapedPart\<close> and \<open>queryString\<close> are what \<^verbatim>\<open>String\<close> prints for its path and
  query. \<open>isctl\<close> is the test of \<^verbatim>\<open>stringContainsCTLByte\<close> on one byte, and \<open>okc\<close>
  holds of the bytes that may stand in an escaped path.
\<close>

definition pathPart :: "string \<Rightarrow> string" where
  "pathPart pc = takeWhile (\<lambda>c. c \<noteq> CHR ''?'') pc"

definition forceQ :: "string \<Rightarrow> bool" where
  "forceQ pc = (pc \<noteq> [] \<and> last pc = CHR ''?'' \<and> count_list pc (CHR ''?'') = 1)"

definition queryPart :: "string \<Rightarrow> string" where
  "queryPart pc = (if forceQ pc then [] else drop 1 (dropWhile (\<lambda>c. c \<noteq> CHR ''?'') pc))"

definition builtURL :: "string \<Rightarrow> string \<Rightarrow> string \<Rightarrow> URL" where
  "builtURL p pc path =
     \<lparr>Scheme = ''https'', Opaque = [], User = None, Host = ''api.postcodes.io'',
      Path = p @ path,
      RawPath = (if pathPart pc = escape path encodePath then [] else p @ pathPart pc),
      OmitHost = False, ForceQuery = forceQ pc, RawQuery = queryPart pc,
      Fragment = [], RawFragment = []\<rparr>"

definition escapedPart :: "string \<Rightarrow> string \<Rightarrow> string" where
  "escapedPart pc path =
     (if validEncoded (pathPart pc) encodePath then pathPart pc else escape path encodePath)"

definition queryString :: "string \<Rightarrow> string" where
  "queryString pc = (if forceQ pc \<or> queryPart pc \<noteq> [] then CHR ''?'' # queryPart pc else [])"

definition isctl :: "char \<Rightarrow> bool" where
  "isctl c = (byte c < 32 \<or> byte c = 127)"

definition okc :: "char \<Rightarrow> bool" where
  "okc c = (c \<noteq> CHR ''?'' \<and> 32 \<le> byte c \<and> byte c \<noteq> 127)"

text \<open>\<open>noEOF\<close>: an error value, if any, is not \<^verbatim>\<open>io.EOF\<close>.\<close>

definition noEOF :: "error option \<Rightarrow> bool" where
  "noEOF e = (e \<noteq> Some EOF)"

section \<open>The status classifier\<close>

lemma Error_consts_distinct:
  "distinct [NotFound, BadRequest, ServerError, NoResults, MultipleResults, InvalidError]"
  by (simp add: NotFound_def BadRequest_def ServerError_def NoResults_def
      MultipleResults_def InvalidError_def)

text \<open>
  C6. \<open>errorFromHTTPCode\<close> is a total function on the integers: 400 gives
  \<open>BadRequest\<close>, 404 gives \<open>NotFound\<close>, 500 gives \<open>ServerError\<close>, and every other
  integer (200 and 0 among them) gives \<open>InvalidError\<close>; the four results are different
  values, and the function has no error result of its own (its type is \<open>int \<Rightarrow> Error\<close>).
\<close>

theorem errorFromHTTPCode_table:
  "errorFromHTTPCode 400 = BadRequest \<and>
   errorFromHTTPCode 404 = NotFound \<and>
   errorFromHTTPCode 500 = ServerError \<and>
   (\<forall>code. code \<noteq> 400 \<and> code \<noteq> 404 \<and> code \<noteq> 500 \<longrightarrow>
      errorFromHTTPCode code = InvalidError) \<and>
   errorFromHTTPCode 200 = InvalidError \<and>
   errorFromHTTPCode 0 = InvalidError \<and>
   distinct [BadRequest, NotFound, ServerError, InvalidError]"
  by (simp add: errorFromHTTPCode_def NotFound_def BadRequest_def ServerError_def
      InvalidError_def)

theorem errorFromHTTPCode_table_witness:
  "errorFromHTTPCode 400 = BadRequest \<and> errorFromHTTPCode 404 = NotFound \<and>
   errorFromHTTPCode 500 = ServerError \<and> errorFromHTTPCode 201 = InvalidError \<and>
   errorFromHTTPCode (- 1) = InvalidError \<and> BadRequest \<noteq> InvalidError"
proof -
  note t = errorFromHTTPCode_table
  from t have other: "\<forall>code. code \<noteq> 400 \<and> code \<noteq> 404 \<and> code \<noteq> 500 \<longrightarrow>
      errorFromHTTPCode code = InvalidError"
    by blast
  have "errorFromHTTPCode 201 = InvalidError" "errorFromHTTPCode (- 1) = InvalidError"
    using other by simp_all
  moreover from t have "BadRequest \<noteq> InvalidError" by simp
  ultimately show ?thesis using t by blast
qed

section \<open>The URL builder: parsing the constructed address\<close>

lemma getScheme_base: "getScheme (baseURL @ x) = Inr (''https'', ''//api.postcodes.io'' @ x)"
  by (simp add: getScheme_def baseURL_def isalpha_def byte_def isdigit_def)

lemma ToLower_https: "ToLower ''https'' = ''https''"
  by (simp add: ToLower_def byte_def)

lemma parseAuthority_host: "parseAuthority ''api.postcodes.io'' = Inr (None, ''api.postcodes.io'')"
  by (simp add: parseAuthority_def cutLast_def parseHost_def shouldEscape_def isalpha_def isdigit_def byte_def)

lemma butlast_force:
  "pc \<noteq> [] \<Longrightarrow> last pc = c \<Longrightarrow> count_list pc c = 1 \<Longrightarrow> butlast pc = takeWhile (\<lambda>x. x \<noteq> c) pc"
proof (induction pc)
  case Nil
  then show ?case by simp
next
  case (Cons a pc)
  show ?case
  proof (cases "pc = []")
    case True
    with Cons.prems show ?thesis by simp
  next
    case False
    with Cons.prems have "a \<noteq> c"
      by (auto split: if_splits simp: count_list_0_iff) 
    with Cons False show ?thesis by (auto split: if_splits)
  qed
qed

lemma rest_force:
  assumes "p = ''/postcodes/'' \<or> p = ''/outcodes/''"
  shows "((''//api.postcodes.io'' @ p @ pc) \<noteq> [] \<and> last (''//api.postcodes.io'' @ p @ pc) = CHR ''?'' \<and>
          count_list (''//api.postcodes.io'' @ p @ pc) (CHR ''?'') = 1) = forceQ pc"
  using assms by (auto simp: forceQ_def split: if_splits)

lemma rest_butlast:
  assumes "p = ''/postcodes/'' \<or> p = ''/outcodes/''" "forceQ pc"
  shows "butlast (''//api.postcodes.io'' @ p @ pc) = ''//api.postcodes.io'' @ p @ pathPart pc"
proof -
  from assms(2) have "pc \<noteq> []" "butlast pc = pathPart pc"
    using butlast_force[of pc "CHR ''?''"] by (auto simp: forceQ_def pathPart_def)
  then show ?thesis by (simp only: butlast_append append_is_Nil_conv simp_thms if_False)
qed

lemma rest_Cut:
  assumes "p = ''/postcodes/'' \<or> p = ''/outcodes/''"
  shows "Cut (''//api.postcodes.io'' @ p @ pc) (CHR ''?'') =
         (''//api.postcodes.io'' @ p @ pathPart pc, drop 1 (dropWhile (\<lambda>c. c \<noteq> CHR ''?'') pc))"
  using assms by (auto simp: Cut_def pathPart_def)

lemma rest_authority:
  assumes "p = ''/postcodes/'' \<or> p = ''/outcodes/''"
  shows "takeWhile (\<lambda>c. c \<noteq> CHR ''/'') (drop 2 (''//api.postcodes.io'' @ p @ x)) = ''api.postcodes.io''"
    and "dropWhile (\<lambda>c. c \<noteq> CHR ''/'') (drop 2 (''//api.postcodes.io'' @ p @ x)) = p @ x"
    and "prefix ''/'' (''//api.postcodes.io'' @ p @ x)"
    and "prefix ''//'' (''//api.postcodes.io'' @ p @ x)"
  using assms by auto

lemma res_unescape:
  assumes "p = ''/postcodes/'' \<or> p = ''/outcodes/''"
  shows "unescape (p @ x) encodePath = (case unescape x encodePath of Inl e \<Rightarrow> Inl e | Inr r \<Rightarrow> Inr (p @ r))"
  using assms by (auto split: sum.splits)

lemma res_escape:
  assumes "p = ''/postcodes/'' \<or> p = ''/outcodes/''"
  shows "escape (p @ x) encodePath = p @ escape x encodePath"
  using assms by (auto simp: shouldEscape_def isalpha_def isdigit_def byte_def)

lemma res_CTL:
  assumes "p = ''/postcodes/'' \<or> p = ''/outcodes/''"
  shows "stringContainsCTLByte (baseURL @ p @ x) = stringContainsCTLByte x"
  using assms by (auto simp: stringContainsCTLByte_def baseURL_def byte_def)

lemma res_nonempty:
  assumes "p = ''/postcodes/'' \<or> p = ''/outcodes/''"
  shows "baseURL @ p @ x \<noteq> []" "baseURL @ p @ x \<noteq> ''*''"
  using assms by (auto simp: baseURL_def)

lemma parse_res:
  assumes p: "p = ''/postcodes/'' \<or> p = ''/outcodes/''"
  shows "parse (baseURL @ p @ pc) True =
     (if stringContainsCTLByte pc then Inl (ErrorString ''net/url: invalid control character in URL'')
      else case unescape (pathPart pc) encodePath of
             Inl e \<Rightarrow> Inl e
           | Inr path \<Rightarrow>
               Inr \<lparr>Scheme = ''https'', Opaque = [], User = None, Host = ''api.postcodes.io'',
                    Path = p @ path,
                    RawPath = (if pathPart pc = escape path encodePath then [] else p @ pathPart pc),
                    OmitHost = False, ForceQuery = forceQ pc, RawQuery = queryPart pc,
                    Fragment = [], RawFragment = []\<rparr>)"
proof (cases "stringContainsCTLByte pc")
  case True
  then show ?thesis by (simp add: parse_def res_CTL[OF p])
next
  case noctl: False
  define rest0 where "rest0 = ''//api.postcodes.io'' @ p @ pc"
  define rest1 where "rest1 = ''//api.postcodes.io'' @ p @ pathPart pc"
  have gs: "getScheme (baseURL @ p @ pc) = Inr (''https'', rest0)"
    by (simp only: getScheme_base rest0_def)
  have force: "(rest0 \<noteq> [] \<and> last rest0 = CHR ''?'' \<and> count_list rest0 (CHR ''?'') = 1) = forceQ pc"
    unfolding rest0_def by (rule rest_force[OF p])
  have r1: "(if forceQ pc then butlast rest0 else fst (Cut rest0 (CHR ''?''))) = rest1"
    unfolding rest0_def rest1_def
    by (cases "forceQ pc") (simp_all only: rest_butlast[OF p] rest_Cut[OF p] if_True if_False fst_conv)
  have q: "snd (Cut rest0 (CHR ''?'')) = drop 1 (dropWhile (\<lambda>c. c \<noteq> CHR ''?'') pc)"
    unfolding rest0_def by (simp only: rest_Cut[OF p] snd_conv)
  have a: "takeWhile (\<lambda>c. c \<noteq> CHR ''/'') (drop 2 rest1) = ''api.postcodes.io''"
    "dropWhile (\<lambda>c. c \<noteq> CHR ''/'') (drop 2 rest1) = p @ pathPart pc"
    "prefix ''/'' rest1" "prefix ''//'' rest1"
    unfolding rest1_def by (rule rest_authority[OF p])+
  have "parse (baseURL @ p @ pc) True =
        setPath ((if forceQ pc then emptyURL\<lparr>Scheme := ''https'', ForceQuery := True\<rparr>
                  else emptyURL\<lparr>Scheme := ''https'', RawQuery := drop 1 (dropWhile (\<lambda>c. c \<noteq> CHR ''?'') pc)\<rparr>)
                 \<lparr>User := None, Host := ''api.postcodes.io''\<rparr>) (p @ pathPart pc)"
    unfolding parse_def gs
    by (simp only: res_CTL[OF p] noctl res_nonempty[OF p] if_False sum.case prod.case Let_def
        force r1 q a ToLower_https parseAuthority_host simp_thms)
      (simp add: emptyURL_def)
  also have "\<dots> = (case unescape (pathPart pc) encodePath of
             Inl e \<Rightarrow> Inl e
           | Inr path \<Rightarrow>
               Inr \<lparr>Scheme = ''https'', Opaque = [], User = None, Host = ''api.postcodes.io'',
                    Path = p @ path,
                    RawPath = (if pathPart pc = escape path encodePath then [] else p @ pathPart pc),
                    OmitHost = False, ForceQuery = forceQ pc, RawQuery = queryPart pc,
                    Fragment = [], RawFragment = []\<rparr>)"
    by (simp add: setPath_def res_unescape[OF p] res_escape[OF p] emptyURL_def queryPart_def
        split: sum.splits)
  finally show ?thesis using noctl by simp
qed

lemma less16: "(k::nat) < 16 \<Longrightarrow> k = 0 \<or> k = 1 \<or> k = 2 \<or> k = 3 \<or> k = 4 \<or> k = 5 \<or> k = 6 \<or> k = 7 \<or>
      k = 8 \<or> k = 9 \<or> k = 10 \<or> k = 11 \<or> k = 12 \<or> k = 13 \<or> k = 14 \<or> k = 15"
  by (simp add: less_Suc_eq numeral_eq_Suc)

lemma upperhex_unhex: "k < 16 \<Longrightarrow> ishex (upperhex k) \<and> unhex (upperhex k) = k \<and> upperhex k \<noteq> CHR ''?'' \<and> 32 \<le> byte (upperhex k) \<and> byte (upperhex k) \<noteq> 127"
  by (drule less16) (elim disjE; simp add: upperhex_def ishex_def unhex_def isdigit_def byte_def)

lemma byte_hex_roundtrip:
  "char_of (unhex (upperhex (byte c div 16)) * 16 + unhex (upperhex (byte c mod 16))) = c"
proof -
  have "byte c < 256" by (simp add: byte_def)
  then have d: "byte c div 16 < 16" by simp
  have m: "byte c mod 16 < 16" by simp
  have "unhex (upperhex (byte c div 16)) * 16 + unhex (upperhex (byte c mod 16)) = byte c"
    using upperhex_unhex[OF d] upperhex_unhex[OF m] by simp
  then show ?thesis by (simp add: byte_def)
qed

lemma shouldEscape_percent: "shouldEscape (CHR ''%'') encodePath"
  by (simp add: shouldEscape_def isalpha_def isdigit_def byte_def)

lemma unescape_escape_path: "unescape (escape s encodePath) encodePath = Inr s"
proof (induction s)
  case Nil
  show ?case by simp
next
  case (Cons c s)
  have d: "byte c div 16 < 16" using less_mult_imp_div_less[of "byte c" 16 16] by (simp add: byte_def)
  have m: "byte c mod 16 < 16" by simp
  show ?case
  proof (cases "shouldEscape c encodePath")
    case True
    then show ?thesis
      using Cons upperhex_unhex[OF d] upperhex_unhex[OF m] byte_hex_roundtrip[of c]
      by simp
  next
    case False
    then have "c \<noteq> CHR ''%''" using shouldEscape_percent by auto
    with False Cons show ?thesis by simp
  qed
qed

lemma shouldEscape_path:
  "shouldEscape c encodePath =
     (\<not> (isalpha c \<or> isdigit c \<or> c \<in> set ''-_.~'' \<or> c \<in> set ''$&+,/:;=@''))"
  by (simp add: shouldEscape_def)

lemma okc_unescaped: "\<not> shouldEscape a encodePath \<Longrightarrow> okc a"
  unfolding shouldEscape_path okc_def isalpha_def isdigit_def
  by (auto simp: byte_def)

lemma okc_upperhex: "k < 16 \<Longrightarrow> okc (upperhex k)"
  using upperhex_unhex[of k] by (simp add: okc_def)

lemma div16: "byte a div 16 < 16"
  using less_mult_imp_div_less[of "byte a" 16 16] by (simp add: byte_def)

lemma escape_path_okc: "list_all okc (escape s encodePath)"
proof (induction s)
  case Nil
  then show ?case by simp
next
  case (Cons a s)
  have m: "byte a mod 16 < 16" by simp
  have pc: "okc (CHR ''%'')"
    by (simp add: okc_def byte_def)
  show ?case
  proof (cases "shouldEscape a encodePath")
    case True
    then show ?thesis using Cons.IH pc okc_upperhex[OF div16] okc_upperhex[OF m] by simp
  next
    case False
    then show ?thesis using Cons.IH okc_unescaped[OF False] by simp
  qed
qed

lemma upperhex_noescape: "k < 16 \<Longrightarrow> \<not> shouldEscape (upperhex k) encodePath"
  unfolding shouldEscape_path
  by (drule less16) (elim disjE; simp add: upperhex_def isalpha_def isdigit_def byte_def)

lemma validEncoded_escape: "validEncoded (escape s encodePath) encodePath"
proof (induction s)
  case Nil
  show ?case by (simp add: validEncoded_def)
next
  case (Cons a s)
  have m: "byte a mod 16 < 16" by simp
  show ?case using Cons upperhex_noescape[OF div16, of a] upperhex_noescape[OF m]
    by (simp add: validEncoded_def)
qed

lemma unescape_no_percent: "CHR ''%'' \<notin> set s \<Longrightarrow> unescape s encodePath = Inr s"
  by (induction s) auto

lemma ParseRequestURI_res:
  assumes p: "p = ''/postcodes/'' \<or> p = ''/outcodes/''"
  shows "ParseRequestURI (baseURL @ p @ pc) =
     (if stringContainsCTLByte pc
      then Inl (URLError ''parse'' (baseURL @ p @ pc)
                  (ErrorString ''net/url: invalid control character in URL''))
      else case unescape (pathPart pc) encodePath of
             Inl e \<Rightarrow> Inl (URLError ''parse'' (baseURL @ p @ pc) e)
           | Inr path \<Rightarrow> Inr (builtURL p pc path))"
  unfolding ParseRequestURI_def parse_res[OF p] builtURL_def
  by (simp split: sum.splits)

lemma res_validEncoded:
  assumes "p = ''/postcodes/'' \<or> p = ''/outcodes/''"
  shows "validEncoded (p @ x) encodePath = validEncoded x encodePath"
  using assms by (auto simp: validEncoded_def shouldEscape_path isalpha_def isdigit_def byte_def)

lemma res_props:
  assumes "p = ''/postcodes/'' \<or> p = ''/outcodes/''"
  shows "p @ x \<noteq> ''*''" "p @ x \<noteq> []" "hd (p @ x) = CHR ''/''"
  using assms by auto

lemma EscapedPath_built:
  assumes p: "p = ''/postcodes/'' \<or> p = ''/outcodes/''"
    and u: "unescape (pathPart pc) encodePath = Inr path"
  shows "EscapedPath (builtURL p pc path) = p @ escapedPart pc path"
proof (cases "pathPart pc = escape path encodePath")
  case True
  then have "validEncoded (pathPart pc) encodePath" using validEncoded_escape by simp
  with True show ?thesis
    by (simp add: EscapedPath_def builtURL_def escapedPart_def res_props[OF p] res_escape[OF p])
next
  case False
  have "p \<noteq> []" using p by auto
  with False show ?thesis
    by (simp add: EscapedPath_def builtURL_def escapedPart_def res_props[OF p] res_escape[OF p]
        res_validEncoded[OF p] res_unescape[OF p] u)
qed

lemma URL_String_built:
  assumes p: "p = ''/postcodes/'' \<or> p = ''/outcodes/''"
    and u: "unescape (pathPart pc) encodePath = Inr path"
  shows "URL_String (builtURL p pc path) = baseURL @ p @ escapedPart pc path @ queryString pc"
proof -
  have f: "Scheme (builtURL p pc path) = ''https''" "Opaque (builtURL p pc path) = []"
    "User (builtURL p pc path) = None" "Host (builtURL p pc path) = ''api.postcodes.io''"
    "OmitHost (builtURL p pc path) = False" "ForceQuery (builtURL p pc path) = forceQ pc"
    "RawQuery (builtURL p pc path) = queryPart pc" "Fragment (builtURL p pc path) = []"
    "Path (builtURL p pc path) = p @ path"
    by (simp_all add: builtURL_def)
  show ?thesis
    unfolding URL_String_def EscapedPath_built[OF p u] f Let_def
    by (simp add: shouldEscape_def isalpha_def isdigit_def byte_def res_props[OF p] baseURL_def
        queryString_def)
qed

lemma pathPart_rebuilt:
  assumes "CHR ''?'' \<notin> set e"
  shows "pathPart (e @ queryString pc) = e"
proof -
  have "takeWhile (\<lambda>c. c \<noteq> CHR ''?'') (e @ queryString pc) = e @ takeWhile (\<lambda>c. c \<noteq> CHR ''?'') (queryString pc)"
    using assms by (intro takeWhile_append2) auto
  then show ?thesis by (simp add: pathPart_def queryString_def)
qed

lemma count_last: "q \<noteq> [] \<Longrightarrow> last q = c \<Longrightarrow> 0 < count_list q c"
  by (metis count_list_0_iff last_in_set neq0_conv)

lemma forceQ_rebuilt:
  assumes e: "CHR ''?'' \<notin> set e"
  shows "forceQ (e @ queryString pc) = forceQ pc"
proof (cases "forceQ pc")
  case True
  then have "queryString pc = ''?''" by (simp add: queryString_def queryPart_def)
  moreover have "count_list e (CHR ''?'') = 0" using e by (simp add: count_list_0_iff)
  ultimately show ?thesis using True by (simp add: forceQ_def)
next
  case False
  show ?thesis
  proof (cases "queryPart pc = []")
    case True
    with False have q: "queryString pc = []" by (simp add: queryString_def)
    have "\<not> forceQ e"
    proof
      assume "forceQ e"
      then have "e \<noteq> []" "last e = CHR ''?''" by (simp_all add: forceQ_def)
      then have "CHR ''?'' \<in> set e" using last_in_set by metis
      with e show False by simp
    qed
    with False q show ?thesis by simp
  next
    case ne: False
    then have q: "queryString pc = CHR ''?'' # queryPart pc" by (simp add: queryString_def)
    have "\<not> forceQ (e @ CHR ''?'' # queryPart pc)"
    proof
      assume f: "forceQ (e @ CHR ''?'' # queryPart pc)"
      then have "last (queryPart pc) = CHR ''?''" using ne by (simp add: forceQ_def)
      then have "0 < count_list (queryPart pc) (CHR ''?'')" using ne count_last by metis
      with f show False by (simp add: forceQ_def)
    qed
    with False q show ?thesis by simp
  qed
qed

lemma queryPart_rebuilt:
  assumes e: "CHR ''?'' \<notin> set e"
  shows "queryPart (e @ queryString pc) = queryPart pc"
proof -
  have d: "dropWhile (\<lambda>c. c \<noteq> CHR ''?'') (e @ queryString pc) = dropWhile (\<lambda>c. c \<noteq> CHR ''?'') (queryString pc)"
    using e by (intro dropWhile_append2) auto
  show ?thesis
  proof (cases "forceQ pc")
    case True
    then show ?thesis using forceQ_rebuilt[OF e, of pc] by (simp add: queryPart_def)
  next
    case False
    then have "\<not> forceQ (e @ queryString pc)" using forceQ_rebuilt[OF e, of pc] by simp
    then have "queryPart (e @ queryString pc) = drop 1 (dropWhile (\<lambda>c. c \<noteq> CHR ''?'') (queryString pc))"
      by (simp add: queryPart_def d)
    also have "\<dots> = queryPart pc" using False
      by (simp add: queryString_def queryPart_def)
    finally show ?thesis .
  qed
qed

lemma queryString_rebuilt:
  assumes e: "CHR ''?'' \<notin> set e"
  shows "queryString (e @ queryString pc) = queryString pc"
  by (simp add: queryString_def[of "e @ queryString pc"] forceQ_rebuilt[OF e] queryPart_rebuilt[OF e])
     (simp add: queryString_def)

lemma okc_no_question: "list_all okc s \<Longrightarrow> CHR ''?'' \<notin> set s"
  by (auto simp: list_all_iff okc_def)

lemma escapedPart_no_question: "CHR ''?'' \<notin> set (escapedPart pc path)"
proof (cases "validEncoded (pathPart pc) encodePath")
  case True
  have "CHR ''?'' \<notin> set (takeWhile (\<lambda>c. c \<noteq> CHR ''?'') pc)"
    by (auto dest: set_takeWhileD)
  with True show ?thesis by (simp add: escapedPart_def pathPart_def)
next
  case False
  then show ?thesis using okc_no_question[OF escape_path_okc] by (simp add: escapedPart_def)
qed

lemma CTL_iff: "stringContainsCTLByte s = (\<exists>c\<in>set s. isctl c)"
  by (simp add: stringContainsCTLByte_def list_ex_iff isctl_def)

lemma okc_not_ctl: "okc c \<Longrightarrow> \<not> isctl c"
  by (simp add: okc_def isctl_def)

lemma question_not_ctl: "\<not> isctl (CHR ''?'')"
  by (simp add: isctl_def byte_def)

lemma set_pathPart: "set (pathPart pc) \<subseteq> set pc"
  unfolding pathPart_def by (rule set_takeWhileD[THEN conjunct1, THEN subsetI])

lemma set_queryPart: "set (queryPart pc) \<subseteq> set pc"
proof -
  have "set (drop 1 (dropWhile (\<lambda>c. c \<noteq> CHR ''?'') pc)) \<subseteq> set (dropWhile (\<lambda>c. c \<noteq> CHR ''?'') pc)"
    by (rule set_drop_subset)
  also have "\<dots> \<subseteq> set pc"
    by (rule set_dropWhileD[THEN subsetI])
  finally show ?thesis by (simp add: queryPart_def)
qed

lemma CTL_rebuilt:
  assumes "\<not> stringContainsCTLByte pc"
  shows "\<not> stringContainsCTLByte (escapedPart pc path @ queryString pc)"
proof -
  have pc: "\<forall>c\<in>set pc. \<not> isctl c" using assms by (simp add: CTL_iff)
  have 1: "\<forall>c\<in>set (pathPart pc). \<not> isctl c"
    using pc set_pathPart[of pc] by blast
  have 2: "\<forall>c\<in>set (queryPart pc). \<not> isctl c"
    using pc set_queryPart[of pc] by blast
  have 3: "\<forall>c\<in>set (escape path encodePath). \<not> isctl c"
    using escape_path_okc[of path] okc_not_ctl unfolding list_all_iff by blast
  have 5: "\<forall>c\<in>set (escapedPart pc path). \<not> isctl c"
    using 1 3 by (simp add: escapedPart_def)
  have 6: "\<forall>c\<in>set (queryString pc). \<not> isctl c"
    using 2 question_not_ctl by (auto simp: queryString_def)
  show ?thesis unfolding CTL_iff using 5 6 by (simp add: ball_Un)
qed

lemma unescape_escapedPart:
  assumes "unescape (pathPart pc) encodePath = Inr path"
  shows "unescape (escapedPart pc path) encodePath = Inr path"
  using assms by (simp add: escapedPart_def unescape_escape_path)

lemma validEncoded_escapedPart: "validEncoded (escapedPart pc path) encodePath"
  by (simp add: escapedPart_def validEncoded_escape)

lemma escapedPart_rebuilt:
  "escapedPart (escapedPart pc path @ queryString pc) path = escapedPart pc path"
  using validEncoded_escapedPart[of pc path]
  by (simp add: escapedPart_def[of "escapedPart pc path @ queryString pc"]
      pathPart_rebuilt[OF escapedPart_no_question])

lemma res_cases: "(if 4 < length (pc::string) then ''/postcodes/'' else ''/outcodes/'') = ''/postcodes/'' \<or>
   (if 4 < length pc then ''/postcodes/'' else ''/outcodes/'') = ''/outcodes/''"
  by simp

lemma geocodeURL_alt:
  "geocodeURL pc =
     (case ParseRequestURI (baseURL @ (if 4 < length pc then ''/postcodes/'' else ''/outcodes/'') @ pc) of
        Inl err \<Rightarrow> ([], Some err)
      | Inr uri \<Rightarrow> (URL_String uri, None))"
  by (simp add: geocodeURL_def)

lemma geocodeURL_success:
  assumes "geocodeURL pc = (s, None)"
  defines "p \<equiv> (if 4 < length pc then ''/postcodes/'' else ''/outcodes/'')"
  shows "\<exists>path. \<not> stringContainsCTLByte pc \<and> unescape (pathPart pc) encodePath = Inr path \<and>
           ParseRequestURI (baseURL @ p @ pc) = Inr (builtURL p pc path) \<and>
           s = baseURL @ p @ escapedPart pc path @ queryString pc"
proof -
  have p: "p = ''/postcodes/'' \<or> p = ''/outcodes/''" by (simp add: p_def)
  from assms(1) have g: "(case ParseRequestURI (baseURL @ p @ pc) of
        Inl err \<Rightarrow> ([], Some err) | Inr uri \<Rightarrow> (URL_String uri, None)) = (s, None)"
    by (simp add: geocodeURL_alt p_def)
  then have noctl: "\<not> stringContainsCTLByte pc"
    by (auto simp: ParseRequestURI_res[OF p] split: if_splits)
  with g obtain path where u: "unescape (pathPart pc) encodePath = Inr path"
    by (cases "unescape (pathPart pc) encodePath") (auto simp: ParseRequestURI_res[OF p])
  have pr: "ParseRequestURI (baseURL @ p @ pc) = Inr (builtURL p pc path)"
    using noctl u by (simp add: ParseRequestURI_res[OF p])
  with g have "s = URL_String (builtURL p pc path)" by simp
  then have "s = baseURL @ p @ escapedPart pc path @ queryString pc"
    by (simp add: URL_String_built[OF p u])
  with noctl u pr show ?thesis by blast
qed

lemma geocodeURL_plain:
  assumes "\<not> stringContainsCTLByte pc" "CHR ''%'' \<notin> set pc"
  shows "snd (geocodeURL pc) = None"
proof -
  let ?p = "if 4 < length pc then ''/postcodes/'' else ''/outcodes/''"
  have "CHR ''%'' \<notin> set (pathPart pc)" using assms(2) set_pathPart[of pc] by blast
  then have "unescape (pathPart pc) encodePath = Inr (pathPart pc)" by (rule unescape_no_percent)
  then show ?thesis using assms(1)
    by (simp add: geocodeURL_alt ParseRequestURI_res[OF res_cases])
qed

lemma reparse:
  assumes p: "p = ''/postcodes/'' \<or> p = ''/outcodes/''"
    and noctl: "\<not> stringContainsCTLByte pc"
    and u: "unescape (pathPart pc) encodePath = Inr path"
  defines "s \<equiv> baseURL @ p @ escapedPart pc path @ queryString pc"
  shows "\<exists>uri'. ParseRequestURI s = Inr uri' \<and> Scheme uri' = ''https'' \<and>
           Host uri' = ''api.postcodes.io'' \<and> Path uri' = p @ path \<and>
           RawQuery uri' = queryPart pc \<and> ForceQuery uri' = forceQ pc \<and> URL_String uri' = s"
proof -
  let ?pc' = "escapedPart pc path @ queryString pc"
  note nq = escapedPart_no_question[of pc path]
  have pp: "pathPart ?pc' = escapedPart pc path" by (rule pathPart_rebuilt[OF nq])
  have u': "unescape (pathPart ?pc') encodePath = Inr path"
    unfolding pp by (rule unescape_escapedPart[OF u])
  have "ParseRequestURI (baseURL @ p @ ?pc') = Inr (builtURL p ?pc' path)"
    using CTL_rebuilt[OF noctl, of path] u' by (simp add: ParseRequestURI_res[OF p])
  moreover have "URL_String (builtURL p ?pc' path) = baseURL @ p @ ?pc'"
    unfolding URL_String_built[OF p u'] escapedPart_rebuilt queryString_rebuilt[OF nq] ..
  moreover have "Scheme (builtURL p ?pc' path) = ''https''"
    "Host (builtURL p ?pc' path) = ''api.postcodes.io''"
    "Path (builtURL p ?pc' path) = p @ path"
    "RawQuery (builtURL p ?pc' path) = queryPart pc"
    "ForceQuery (builtURL p ?pc' path) = forceQ pc"
    by (simp_all add: builtURL_def queryPart_rebuilt[OF nq] forceQ_rebuilt[OF nq])
  ultimately show ?thesis unfolding s_def by simp
qed

text \<open>
  C1 (as amended). \<open>geocodeURL\<close> does not build a URL for every input: the parser
  rejects some (a control byte, a malformed percent escape). For every input without a
  control byte and without \<^verbatim>\<open>%\<close> it returns a URL and no error. Whenever it returns a
  URL, the returned string starts with \<^verbatim>\<open>https://api.postcodes.io/postcodes/\<close> when the
  input is longer than 4 bytes and with \<^verbatim>\<open>https://api.postcodes.io/outcodes/\<close>
  otherwise; it parses to scheme \<^verbatim>\<open>https\<close>, host \<^verbatim>\<open>api.postcodes.io\<close> and a path that
  begins with that resource prefix, and the prefix is followed by exactly the input when
  the input has neither \<^verbatim>\<open>?\<close> nor \<^verbatim>\<open>%\<close>.
\<close>

theorem geocodeURL_routes_by_length:
  "(\<not> stringContainsCTLByte pc \<and> CHR ''%'' \<notin> set pc \<longrightarrow> snd (geocodeURL pc) = None) \<and>
   (snd (geocodeURL pc) = None \<longrightarrow>
      prefix (baseURL @ (if 4 < length pc then ''/postcodes/'' else ''/outcodes/''))
        (fst (geocodeURL pc)) \<and>
      (\<exists>uri. ParseRequestURI (fst (geocodeURL pc)) = Inr uri \<and>
         Scheme uri = ''https'' \<and> Host uri = ''api.postcodes.io'' \<and>
         prefix (if 4 < length pc then ''/postcodes/'' else ''/outcodes/'') (Path uri) \<and>
         (CHR ''?'' \<notin> set pc \<and> CHR ''%'' \<notin> set pc \<longrightarrow>
            Path uri = (if 4 < length pc then ''/postcodes/'' else ''/outcodes/'') @ pc)))"
proof (intro conjI impI)
  assume "\<not> stringContainsCTLByte pc \<and> CHR ''%'' \<notin> set pc"
  then show "snd (geocodeURL pc) = None" by (simp add: geocodeURL_plain)
next
  let ?p = "if 4 < length pc then ''/postcodes/'' else ''/outcodes/''"
  assume "snd (geocodeURL pc) = None"
  then have g: "geocodeURL pc = (fst (geocodeURL pc), None)" by (metis prod.collapse)
  from geocodeURL_success[OF g] obtain path where
    noctl: "\<not> stringContainsCTLByte pc" and u: "unescape (pathPart pc) encodePath = Inr path"
    and s: "fst (geocodeURL pc) = baseURL @ ?p @ escapedPart pc path @ queryString pc"
    by blast
  show "prefix (baseURL @ ?p) (fst (geocodeURL pc))"
    unfolding s by (metis append.assoc prefixI)
  from reparse[OF res_cases noctl u] s obtain uri where
    uri: "ParseRequestURI (fst (geocodeURL pc)) = Inr uri" "Scheme uri = ''https''"
      "Host uri = ''api.postcodes.io''" "Path uri = ?p @ path"
    by auto
  have "CHR ''?'' \<notin> set pc \<and> CHR ''%'' \<notin> set pc \<longrightarrow> Path uri = ?p @ pc"
  proof
    assume a: "CHR ''?'' \<notin> set pc \<and> CHR ''%'' \<notin> set pc"
    then have "pathPart pc = pc" by (auto simp: pathPart_def takeWhile_eq_all_conv)
    with a u have "path = pc" by (simp add: unescape_no_percent)
    with uri show "Path uri = ?p @ pc" by simp
  qed
  with uri show "\<exists>uri. ParseRequestURI (fst (geocodeURL pc)) = Inr uri \<and>
         Scheme uri = ''https'' \<and> Host uri = ''api.postcodes.io'' \<and>
         prefix ?p (Path uri) \<and>
         (CHR ''?'' \<notin> set pc \<and> CHR ''%'' \<notin> set pc \<longrightarrow> Path uri = ?p @ pc)"
    by auto
qed

text \<open>The theorem at a full postcode with a space and at a four-byte outward code.\<close>

theorem geocodeURL_routes_by_length_witness:
  "fst (geocodeURL ''SW1A 1AA'') = ''https://api.postcodes.io/postcodes/SW1A%201AA'' \<and>
   snd (geocodeURL ''SW1A 1AA'') = None \<and>
   map_sum id Path (ParseRequestURI (fst (geocodeURL ''SW1A 1AA''))) = Inr ''/postcodes/SW1A 1AA'' \<and>
   snd (geocodeURL ''SW1A'') = None \<and>
   map_sum id Path (ParseRequestURI (fst (geocodeURL ''SW1A''))) = Inr ''/outcodes/SW1A''"
proof -
  have c: "\<not> stringContainsCTLByte ''SW1A 1AA'' \<and> CHR ''%'' \<notin> set ''SW1A 1AA''"
    "\<not> stringContainsCTLByte ''SW1A'' \<and> CHR ''%'' \<notin> set ''SW1A''"
    "CHR ''?'' \<notin> set ''SW1A 1AA''" "CHR ''?'' \<notin> set ''SW1A''"
    by (simp_all add: stringContainsCTLByte_def byte_def)
  have l: "4 < length ''SW1A 1AA''" "\<not> 4 < length ''SW1A''" by simp_all
  note t1 = geocodeURL_routes_by_length[of "''SW1A 1AA''"]
  note t2 = geocodeURL_routes_by_length[of "''SW1A''"]
  from t1 c have n1: "snd (geocodeURL ''SW1A 1AA'') = None" by blast
  from t2 c have n2: "snd (geocodeURL ''SW1A'') = None" by blast
  from t1 n1 c l obtain u1 where "ParseRequestURI (fst (geocodeURL ''SW1A 1AA'')) = Inr u1"
    "Path u1 = ''/postcodes/'' @ ''SW1A 1AA''" by auto
  then have p1: "map_sum id Path (ParseRequestURI (fst (geocodeURL ''SW1A 1AA''))) = Inr ''/postcodes/SW1A 1AA''"
    by simp
  from t2 n2 c l obtain u2 where "ParseRequestURI (fst (geocodeURL ''SW1A'')) = Inr u2"
    "Path u2 = ''/outcodes/'' @ ''SW1A''" by auto
  then have p2: "map_sum id Path (ParseRequestURI (fst (geocodeURL ''SW1A''))) = Inr ''/outcodes/SW1A''"
    by simp
  have e: "fst (geocodeURL ''SW1A 1AA'') = ''https://api.postcodes.io/postcodes/SW1A%201AA''"
    by code_simp
  from e n1 p1 n2 p2 show ?thesis by blast
qed

text \<open>
  C1 as stated fails: for the one-byte input \<^verbatim>\<open>%\<close> no URL is built (the parser's error
  is returned), and for \<^verbatim>\<open>AB1?x\<close> the path of the built URL is \<^verbatim>\<open>/postcodes/AB1\<close>, not
  the prefix followed by the input.
\<close>

theorem geocodeURL_every_input_counterexample:
  "geocodeURL ''%'' =
     ([], Some (URLError ''parse'' ''https://api.postcodes.io/outcodes/%'' (EscapeError ''%''))) \<and>
   geocodeURL ''AB1?x'' = (''https://api.postcodes.io/postcodes/AB1?x'', None) \<and>
   map_sum id Path (ParseRequestURI ''https://api.postcodes.io/postcodes/AB1?x'') =
     Inr ''/postcodes/AB1''"
  by code_simp

text \<open>
  C9. Round trip: whenever \<open>geocodeURL\<close> returns a string \<open>s\<close>, parsing \<open>s\<close> again
  (with the parser \<open>geocodeURL\<close> itself uses) succeeds and gives the path, the raw query,
  the forced-query flag, the scheme and the host of the URL that \<open>geocodeURL\<close> built
  before printing it, and printing the re-parsed URL gives \<open>s\<close> again: nothing is
  escaped twice. The input \<^verbatim>\<open>SW1A 1AA\<close>, with its space, is the witness.
\<close>

theorem geocodeURL_round_trip:
  assumes "geocodeURL pc = (s, None)"
  shows "\<exists>uri uri'.
           ParseRequestURI (baseURL @ (if 4 < length pc then ''/postcodes/'' else ''/outcodes/'') @ pc)
             = Inr uri \<and>
           s = URL_String uri \<and>
           ParseRequestURI s = Inr uri' \<and>
           Path uri' = Path uri \<and> RawQuery uri' = RawQuery uri \<and>
           ForceQuery uri' = ForceQuery uri \<and> Scheme uri' = Scheme uri \<and> Host uri' = Host uri \<and>
           URL_String uri' = s"
proof -
  let ?p = "if 4 < length pc then ''/postcodes/'' else ''/outcodes/''"
  from geocodeURL_success[OF assms] obtain path where
    noctl: "\<not> stringContainsCTLByte pc" and u: "unescape (pathPart pc) encodePath = Inr path"
    and pr: "ParseRequestURI (baseURL @ ?p @ pc) = Inr (builtURL ?p pc path)"
    and s: "s = baseURL @ ?p @ escapedPart pc path @ queryString pc"
    by blast
  have su: "s = URL_String (builtURL ?p pc path)"
    unfolding s by (rule URL_String_built[OF res_cases u, symmetric])
  from reparse[OF res_cases noctl u] s obtain uri' where
    "ParseRequestURI s = Inr uri'" "Scheme uri' = ''https''"
    "Host uri' = ''api.postcodes.io''" "Path uri' = ?p @ path"
    "RawQuery uri' = queryPart pc" "ForceQuery uri' = forceQ pc" "URL_String uri' = s"
    by auto
  moreover have "Scheme (builtURL ?p pc path) = ''https''"
    "Host (builtURL ?p pc path) = ''api.postcodes.io''"
    "Path (builtURL ?p pc path) = ?p @ path"
    "RawQuery (builtURL ?p pc path) = queryPart pc"
    "ForceQuery (builtURL ?p pc path) = forceQ pc"
    by (simp_all add: builtURL_def)
  ultimately show ?thesis using pr su by auto
qed

text \<open>
  For \<^verbatim>\<open>SW1A 1AA\<close>: the space is printed as \<^verbatim>\<open>%20\<close>, and both \<^verbatim>\<open>ParseRequestURI\<close> and
  \<^verbatim>\<open>url.Parse\<close> read the path with the space back, with an empty query.
\<close>

theorem geocodeURL_round_trip_witness:
  "geocodeURL ''SW1A 1AA'' = (''https://api.postcodes.io/postcodes/SW1A%201AA'', None) \<and>
   (\<exists>uri uri'.
      ParseRequestURI ''https://api.postcodes.io/postcodes/SW1A 1AA'' = Inr uri \<and>
      ParseRequestURI ''https://api.postcodes.io/postcodes/SW1A%201AA'' = Inr uri' \<and>
      Path uri = ''/postcodes/SW1A 1AA'' \<and> Path uri' = ''/postcodes/SW1A 1AA'' \<and>
      RawQuery uri = [] \<and> RawQuery uri' = [] \<and>
      URL_String uri' = ''https://api.postcodes.io/postcodes/SW1A%201AA'') \<and>
   map_sum id (\<lambda>u. (Path u, RawQuery u, Fragment u))
     (Parse ''https://api.postcodes.io/postcodes/SW1A%201AA'') =
     Inr (''/postcodes/SW1A 1AA'', [], [])"
proof -
  have g: "geocodeURL ''SW1A 1AA'' = (''https://api.postcodes.io/postcodes/SW1A%201AA'', None)"
    by code_simp
  have b: "baseURL @ (if 4 < length ''SW1A 1AA'' then ''/postcodes/'' else ''/outcodes/'') @ ''SW1A 1AA''
        = ''https://api.postcodes.io/postcodes/SW1A 1AA''"
    by (simp add: baseURL_def)
  have p: "map_sum id (\<lambda>u. (Path u, RawQuery u)) (ParseRequestURI ''https://api.postcodes.io/postcodes/SW1A 1AA'')
        = Inr (''/postcodes/SW1A 1AA'', [])"
    by code_simp
  have q: "map_sum id (\<lambda>u. (Path u, RawQuery u, Fragment u))
     (Parse ''https://api.postcodes.io/postcodes/SW1A%201AA'') = Inr (''/postcodes/SW1A 1AA'', [], [])"
    by code_simp
  from geocodeURL_round_trip[OF g] obtain uri uri' where
    r: "ParseRequestURI ''https://api.postcodes.io/postcodes/SW1A 1AA'' = Inr uri"
    "ParseRequestURI ''https://api.postcodes.io/postcodes/SW1A%201AA'' = Inr uri'"
    "Path uri' = Path uri" "RawQuery uri' = RawQuery uri"
    "URL_String uri' = ''https://api.postcodes.io/postcodes/SW1A%201AA''"
    unfolding b by blast
  from p r(1) have "Path uri = ''/postcodes/SW1A 1AA''" "RawQuery uri = []" by simp_all
  with r g q show ?thesis by auto
qed

lemma build_full:
  assumes p: "p = ''/postcodes/'' \<or> p = ''/outcodes/''"
  shows "(case ParseRequestURI (baseURL @ p @ pc) of
            Inl err \<Rightarrow> ([], Some err)
          | Inr uri \<Rightarrow> (URL_String uri, None)) =
     (if stringContainsCTLByte pc
      then ([], Some (URLError ''parse'' (baseURL @ p @ pc)
                  (ErrorString ''net/url: invalid control character in URL'')))
      else case unescape (pathPart pc) encodePath of
             Inl e \<Rightarrow> ([], Some (URLError ''parse'' (baseURL @ p @ pc) e))
           | Inr path \<Rightarrow> (baseURL @ p @ escapedPart pc path @ queryString pc, None))"
  unfolding ParseRequestURI_res[OF p]
  by (simp add: URL_String_built[OF p] split: sum.splits)

lemma geocodeURL_rev1_alt:
  "geocodeURL_rev1 pc =
     (if stringContainsCTLByte pc
      then ([], Some (URLError ''parse'' (baseURL @ ''/postcodes/'' @ pc)
                  (ErrorString ''net/url: invalid control character in URL'')))
      else case unescape (pathPart pc) encodePath of
             Inl e \<Rightarrow> ([], Some (URLError ''parse'' (baseURL @ ''/postcodes/'' @ pc) e))
           | Inr path \<Rightarrow> (baseURL @ ''/postcodes/'' @ escapedPart pc path @ queryString pc, None))"
  unfolding geocodeURL_rev1_def by (rule build_full) simp

lemma geocodeURL_full:
  "geocodeURL pc =
     (if stringContainsCTLByte pc
      then ([], Some (URLError ''parse''
                  (baseURL @ (if 4 < length pc then ''/postcodes/'' else ''/outcodes/'') @ pc)
                  (ErrorString ''net/url: invalid control character in URL'')))
      else case unescape (pathPart pc) encodePath of
             Inl e \<Rightarrow> ([], Some (URLError ''parse''
                  (baseURL @ (if 4 < length pc then ''/postcodes/'' else ''/outcodes/'') @ pc) e))
           | Inr path \<Rightarrow>
               (baseURL @ (if 4 < length pc then ''/postcodes/'' else ''/outcodes/'') @
                  escapedPart pc path @ queryString pc, None))"
  unfolding geocodeURL_alt by (rule build_full) (rule res_cases)

text \<open>
  C10. The two revisions of \<open>geocodeURL\<close> in the source file return the same pair (the
  same URL string or the same error) for every input longer than 4 bytes; they differ on
  every input of 4 bytes or fewer, and only there; the earlier revision routes whatever
  it accepts to \<^verbatim>\<open>/postcodes/\<close>.
\<close>

theorem geocodeURL_revisions_agree:
  "(4 < length pc \<longrightarrow> geocodeURL_rev1 pc = geocodeURL pc) \<and>
   (length pc \<le> 4 \<longrightarrow> geocodeURL_rev1 pc \<noteq> geocodeURL pc) \<and>
   (snd (geocodeURL_rev1 pc) = None \<longrightarrow>
      prefix (baseURL @ ''/postcodes/'') (fst (geocodeURL_rev1 pc)))"
proof (intro conjI impI)
  assume "4 < length pc"
  then show "geocodeURL_rev1 pc = geocodeURL pc"
    by (simp add: geocodeURL_rev1_def geocodeURL_def)
next
  assume "length pc \<le> 4"
  then have l: "\<not> 4 < length pc" by simp
  have d: "\<And>x y. baseURL @ ''/postcodes/'' @ x \<noteq> baseURL @ ''/outcodes/'' @ y" by simp
  show "geocodeURL_rev1 pc \<noteq> geocodeURL pc"
    unfolding geocodeURL_rev1_alt geocodeURL_full using l d
    by (simp split: sum.splits)
next
  assume "snd (geocodeURL_rev1 pc) = None"
  then show "prefix (baseURL @ ''/postcodes/'') (fst (geocodeURL_rev1 pc))"
    unfolding geocodeURL_rev1_alt
    by (auto split: if_splits sum.splits intro: prefixI simp del: append_assoc simp: append_assoc[symmetric])
qed

text \<open>The two revisions on \<^verbatim>\<open>SW1A 1AA\<close> (equal) and on \<^verbatim>\<open>SW1A\<close> (different).\<close>

theorem geocodeURL_revisions_agree_witness:
  "geocodeURL_rev1 ''SW1A 1AA'' = geocodeURL ''SW1A 1AA'' \<and>
   geocodeURL ''SW1A 1AA'' = (''https://api.postcodes.io/postcodes/SW1A%201AA'', None) \<and>
   geocodeURL_rev1 ''SW1A'' \<noteq> geocodeURL ''SW1A'' \<and>
   geocodeURL_rev1 ''SW1A'' = (''https://api.postcodes.io/postcodes/SW1A'', None) \<and>
   geocodeURL ''SW1A'' = (''https://api.postcodes.io/outcodes/SW1A'', None) \<and>
   prefix (baseURL @ ''/postcodes/'') (fst (geocodeURL_rev1 ''SW1A''))"
proof -
  have e: "geocodeURL ''SW1A 1AA'' = (''https://api.postcodes.io/postcodes/SW1A%201AA'', None)"
    "geocodeURL_rev1 ''SW1A'' = (''https://api.postcodes.io/postcodes/SW1A'', None)"
    "geocodeURL ''SW1A'' = (''https://api.postcodes.io/outcodes/SW1A'', None)"
    by code_simp+
  have l: "4 < length ''SW1A 1AA''" "length ''SW1A'' \<le> 4" by simp_all
  have n: "snd (geocodeURL_rev1 ''SW1A'') = None" using e by simp
  from geocodeURL_revisions_agree[of "''SW1A 1AA''"] l
  have 1: "geocodeURL_rev1 ''SW1A 1AA'' = geocodeURL ''SW1A 1AA''" by blast
  from geocodeURL_revisions_agree[of "''SW1A''"] l n
  have 2: "geocodeURL_rev1 ''SW1A'' \<noteq> geocodeURL ''SW1A''"
    "prefix (baseURL @ ''/postcodes/'') (fst (geocodeURL_rev1 ''SW1A''))" by blast+
  from 1 2 e show ?thesis by blast
qed

section \<open>The entry point and the decoder: case by case\<close>

lemma geocodeURL_SW1A:
  "geocodeURL ''SW1A 1AA'' = (''https://api.postcodes.io/postcodes/SW1A%201AA'', None)"
  by code_simp

lemma Geocode_url_error:
  "geocodeURL pc = (url, Some err) \<Longrightarrow>
   Geocode libmsg http_Get pc =
     (\<lparr>Longitude = 0, Latitude = 0\<rparr>, Some (decorateGeocodingError libmsg err))"
  by (simp add: Geocode_def)

lemma Geocode_transport_error:
  "geocodeURL pc = (url, None) \<Longrightarrow> http_Get url = Inl err \<Longrightarrow>
   Geocode libmsg http_Get pc =
     (\<lparr>Longitude = 0, Latitude = 0\<rparr>, Some (decorateGeocodingError libmsg err))"
  by (simp add: Geocode_def)

lemma Geocode_status_error:
  "geocodeURL pc = (url, None) \<Longrightarrow> http_Get url = Inr r \<Longrightarrow> StatusCode r \<noteq> 200 \<Longrightarrow>
   Geocode libmsg http_Get pc =
     (\<lparr>Longitude = 0, Latitude = 0\<rparr>,
      Some (decorateGeocodingError libmsg (PkgError (errorFromHTTPCode (StatusCode r)))))"
  by (simp add: Geocode_def)

lemma Geocode_decoded:
  "geocodeURL pc = (url, None) \<Longrightarrow> http_Get url = Inr r \<Longrightarrow> StatusCode r = 200 \<Longrightarrow>
   Geocode libmsg http_Get pc =
     (\<lparr>Longitude = Longitude' (fst (decodePayload libmsg r)),
       Latitude = Latitude' (fst (decodePayload libmsg r))\<rparr>,
      map_option (decorateGeocodingError libmsg) (snd (decodePayload libmsg r)))"
  by (simp add: Geocode_def split: prod.splits)

lemma decodePayload_read_error:
  "Body r = Inl err \<Longrightarrow>
   decodePayload libmsg r =
     (zeroResult,
      Some (ErrorString (''could not read http response body: '' @ error_Error libmsg err)))"
  by (simp add: decodePayload_def)

lemma decodePayload_cases:
  assumes "Body r = Inr body" "Decode body zeroPayload = (p, e)"
  shows "decodePayload libmsg r =
     (Result p,
      if e \<noteq> None \<and> e \<noteq> Some EOF then e
      else if Error' p \<noteq> [] then Some (ErrorString (Error' p))
      else if Status p \<noteq> 200 then Some (PkgError (errorFromHTTPCode (Status p)))
      else None)"
  using assms by (auto simp: decodePayload_def Let_def)

text \<open>
  C7. When the transport returns a response whose status is not 200, \<open>Geocode\<close> returns
  at once: the zero \<open>GeoPoint\<close> and the decorated error of the classified status,
  whatever the body is (the body is not read: the result does not mention it). For status
  404 the decorated error is that of \<open>NotFound\<close>; decoration makes a new error whose
  message is the fixed prefix followed by the message of \<open>NotFound\<close>.
\<close>

theorem Geocode_non_200:
  assumes "geocodeURL pc = (url, None)" and "http_Get url = Inr r" and "StatusCode r \<noteq> 200"
  shows "Geocode libmsg http_Get pc =
           (\<lparr>Longitude = 0, Latitude = 0\<rparr>,
            Some (decorateGeocodingError libmsg (PkgError (errorFromHTTPCode (StatusCode r))))) \<and>
         (StatusCode r = 404 \<longrightarrow>
            snd (Geocode libmsg http_Get pc) =
              Some (decorateGeocodingError libmsg (PkgError NotFound)) \<and>
            decorateGeocodingError libmsg (PkgError NotFound) =
              ErrorString (''postcodes.io: could not geocode postcode: '' @
                           ''postcodes.io could not find the requested information (404)''))"
proof -
  have 1: "Geocode libmsg http_Get pc =
           (\<lparr>Longitude = 0, Latitude = 0\<rparr>,
            Some (decorateGeocodingError libmsg (PkgError (errorFromHTTPCode (StatusCode r)))))"
    using assms by (rule Geocode_status_error)
  have 2: "decorateGeocodingError libmsg (PkgError NotFound) =
              ErrorString (''postcodes.io: could not geocode postcode: '' @
                           ''postcodes.io could not find the requested information (404)'')"
    by (simp add: decorateGeocodingError_def error_Error_def Error_Error_def)
  have 3: "errorFromHTTPCode 404 = NotFound" by (simp add: errorFromHTTPCode_def)
  show ?thesis using 1 2 3 by simp
qed

text \<open>Status 404 with a well-formed success body, and with a body that cannot be read.\<close>

theorem Geocode_non_200_witness:
  "Geocode (\<lambda>e. []) (\<lambda>u. Inr \<lparr>StatusCode = 404, Body = Inr ''{\"status\":200,\"result\":{\"longitude\":-0.127,\"latitude\":51.507}}''\<rparr>) ''SW1A 1AA'' =
     (\<lparr>Longitude = 0, Latitude = 0\<rparr>,
      Some (ErrorString ''postcodes.io: could not geocode postcode: postcodes.io could not find the requested information (404)'')) \<and>
   Geocode (\<lambda>e. []) (\<lambda>u. Inr \<lparr>StatusCode = 404, Body = Inl (OtherError ''connection reset'')\<rparr>) ''SW1A 1AA'' =
     (\<lparr>Longitude = 0, Latitude = 0\<rparr>,
      Some (ErrorString ''postcodes.io: could not geocode postcode: postcodes.io could not find the requested information (404)''))"
proof -
  define r1 :: Response where "r1 = \<lparr>StatusCode = 404, Body = Inr ''{\"status\":200,\"result\":{\"longitude\":-0.127,\"latitude\":51.507}}''\<rparr>"
  define r2 :: Response where "r2 = \<lparr>StatusCode = 404, Body = Inl (OtherError ''connection reset'')\<rparr>"
  have s: "StatusCode r1 \<noteq> 200" "StatusCode r2 \<noteq> 200" "StatusCode r1 = 404" "StatusCode r2 = 404"
    by (simp_all add: r1_def r2_def)
  have g: "(\<lambda>u::string. Inr r1 :: error + Response) ''https://api.postcodes.io/postcodes/SW1A%201AA'' = Inr r1"
    "(\<lambda>u::string. Inr r2 :: error + Response) ''https://api.postcodes.io/postcodes/SW1A%201AA'' = Inr r2"
    by simp_all
  note t1 = Geocode_non_200[where libmsg = "\<lambda>e. []", OF geocodeURL_SW1A g(1) s(1)]
  note t2 = Geocode_non_200[where libmsg = "\<lambda>e. []", OF geocodeURL_SW1A g(2) s(2)]
  have e: "errorFromHTTPCode 404 = NotFound" by (simp add: errorFromHTTPCode_def)
  from t1 s(3) e have a: "Geocode (\<lambda>e. []) (\<lambda>u. Inr r1) ''SW1A 1AA'' =
     (\<lparr>Longitude = 0, Latitude = 0\<rparr>,
      Some (ErrorString ''postcodes.io: could not geocode postcode: postcodes.io could not find the requested information (404)''))"
    by simp
  from t2 s(4) e have b: "Geocode (\<lambda>e. []) (\<lambda>u. Inr r2) ''SW1A 1AA'' =
     (\<lparr>Longitude = 0, Latitude = 0\<rparr>,
      Some (ErrorString ''postcodes.io: could not geocode postcode: postcodes.io could not find the requested information (404)''))"
    by simp
  from a b show ?thesis unfolding r1_def r2_def by (rule conjI)
qed

section \<open>What the decoder can report\<close>

text \<open>
  Storing a value into the envelope never reports \<^verbatim>\<open>io.EOF\<close> (its errors are type
  errors); \<open>Decode\<close> reports it only when the body holds no value at all, and then the
  envelope is untouched.
\<close>

lemma noEOF_simps: "noEOF None" "noEOF (Some (UnmarshalTypeError a b))"
  by (simp_all add: noEOF_def)

lemma noEOF_firstError: "noEOF a \<Longrightarrow> noEOF b \<Longrightarrow> noEOF (firstError a b)"
  by (cases a) (simp_all add: firstError_def)

lemma noEOF_storeString: "noEOF (snd (storeString v old))"
  by (cases v) (simp_all add: storeString_def noEOF_simps)

lemma noEOF_storeInt: "noEOF (snd (storeInt v old))"
  by (cases v) (simp_all add: storeInt_def noEOF_simps split: option.splits)

lemma noEOF_storeFloat: "noEOF (snd (storeFloat v old))"
  by (cases v) (simp_all add: storeFloat_def noEOF_simps split: option.splits)

lemma noEOF_interface:
  "noEOF (snd (valueInterface v))"
  "noEOF (snd (arrayInterface vs))"
  "noEOF (snd (objectInterface ms))"
  by (induction v and vs and ms rule: valueInterface_arrayInterface_objectInterface.induct)
     (auto simp: noEOF_simps split_beta intro!: noEOF_firstError split: option.splits,
      (metis surjective_pairing)+)

lemma noEOF_storeCodesField: "noEOF (snd (storeCodesField kv c))"
  using noEOF_storeString
  by (simp add: storeCodesField_def Let_def split_beta noEOF_simps)

lemma noEOF_storeCodesFields: "noEOF (snd (storeCodesFields ms c))"
  by (induction ms arbitrary: c)
     (simp_all add: noEOF_simps split_beta noEOF_firstError noEOF_storeCodesField)

lemma noEOF_storeCodes: "noEOF (snd (storeCodes v old))"
  by (cases v) (simp_all add: storeCodes_def noEOF_simps noEOF_storeCodesFields)

lemma noEOF_storeResultField: "noEOF (snd (storeResultField kv r))"
  using noEOF_storeString noEOF_storeInt noEOF_storeFloat noEOF_interface(1) noEOF_storeCodes
  by (simp add: storeResultField_def Let_def split_beta noEOF_simps)

lemma noEOF_storeResultFields: "noEOF (snd (storeResultFields ms r))"
  by (induction ms arbitrary: r)
     (simp_all add: noEOF_simps split_beta noEOF_firstError noEOF_storeResultField)

lemma noEOF_storeResult: "noEOF (snd (storeResult v old))"
  by (cases v) (simp_all add: storeResult_def noEOF_simps noEOF_storeResultFields)

lemma noEOF_storePayloadField: "noEOF (snd (storePayloadField kv p))"
  using noEOF_storeString noEOF_storeInt noEOF_storeResult
  by (simp add: storePayloadField_def Let_def split_beta noEOF_simps)

lemma noEOF_storePayloadFields: "noEOF (snd (storePayloadFields ms p))"
  by (induction ms arbitrary: p)
     (simp_all add: noEOF_simps split_beta noEOF_firstError noEOF_storePayloadField)

lemma noEOF_unmarshal: "noEOF (snd (unmarshal v old))"
  by (cases v) (simp_all add: unmarshal_def noEOF_simps noEOF_storePayloadFields)

lemma Decode_EOF:
  assumes "Decode buf v = (p, Some EOF)"
  shows "p = v \<and> readValue buf = Inl EOF"
proof (cases "readValue buf")
  case (Inl err)
  with assms show ?thesis by (simp add: Decode_def)
next
  case (Inr j)
  with assms have "snd (unmarshal j v) = Some EOF" by (simp add: Decode_def)
  with noEOF_unmarshal[of j v] show ?thesis by (simp add: noEOF_def)
qed

lemma Decode_example:
  "Decode ''{\"status\":200,\"result\":{\"longitude\":-0.127,\"latitude\":51.507}}'' zeroPayload =
     (zeroPayload\<lparr>Status := 200,
        Result := zeroResult\<lparr>Longitude' := - (571957152676053 / 2 ^ 52),
                             Latitude' := 7248965812717879 / 2 ^ 47\<rparr>\<rparr>, None)"
  by code_simp

lemma Decode_not_found:
  "Decode ''{\"status\":404,\"error\":\"not found\"}'' zeroPayload =
     (zeroPayload\<lparr>Status := 404, Error' := ''not found''\<rparr>, None)"
  by code_simp

lemma Decode_status_only:
  "Decode ''{\"status\":404}'' zeroPayload = (zeroPayload\<lparr>Status := 404\<rparr>, None)"
  by code_simp

lemma Decode_empty: "Decode [] zeroPayload = (zeroPayload, Some EOF)"
  by code_simp

lemma nearest_float64:
  "roundFloat64 127 1000 = Some (571957152676053 / 2 ^ 52)"
  "roundFloat64 51507 1000 = Some (7248965812717879 / 2 ^ 47)"
  by code_simp+

text \<open>
  C2. For the transport's response with status 200 and the body
  \<^verbatim>\<open>{"status":200,"result":{"longitude":-0.127,"latitude":51.507}}\<close>, \<open>Geocode\<close> returns no
  error and the \<open>GeoPoint\<close> whose coordinates are the float64 values nearest to -0.127
  and 51.507 (the values Go's constants \<^verbatim>\<open>-0.127\<close> and \<^verbatim>\<open>51.507\<close> denote), given here
  exactly. In general, whenever \<open>Geocode\<close> returns no error, the URL was built, the
  response had status 200, its body was read and decoded without error into an envelope
  with status 200 and no error text, and both coordinates of the \<open>GeoPoint\<close> are the
  decoded \<^verbatim>\<open>result.longitude\<close> and \<^verbatim>\<open>result.latitude\<close>.
\<close>

theorem Geocode_success:
  "(geocodeURL pc = (url, None) \<and>
    http_Get url =
      Inr \<lparr>StatusCode = 200,
           Body = Inr ''{\"status\":200,\"result\":{\"longitude\":-0.127,\"latitude\":51.507}}''\<rparr> \<longrightarrow>
      Geocode libmsg http_Get pc =
        (\<lparr>Longitude = - (571957152676053 / 2 ^ 52), Latitude = 7248965812717879 / 2 ^ 47\<rparr>,
         None)) \<and>
   roundFloat64 127 1000 = Some (571957152676053 / 2 ^ 52) \<and>
   roundFloat64 51507 1000 = Some (7248965812717879 / 2 ^ 47) \<and>
   (Geocode libmsg http_Get pc = (pt, None) \<longrightarrow>
      (\<exists>url r body p.
         geocodeURL pc = (url, None) \<and> http_Get url = Inr r \<and> StatusCode r = 200 \<and>
         Body r = Inr body \<and> Decode body zeroPayload = (p, None) \<and>
         Status p = 200 \<and> Error' p = [] \<and>
         pt = \<lparr>Longitude = Longitude' (Result p), Latitude = Latitude' (Result p)\<rparr>))"
proof (intro conjI impI)
  assume a: "geocodeURL pc = (url, None) \<and>
    http_Get url =
      Inr \<lparr>StatusCode = 200,
           Body = Inr ''{\"status\":200,\"result\":{\"longitude\":-0.127,\"latitude\":51.507}}''\<rparr>"
  define r :: Response where "r = \<lparr>StatusCode = 200,
           Body = Inr ''{\"status\":200,\"result\":{\"longitude\":-0.127,\"latitude\":51.507}}''\<rparr>"
  have b: "Body r = Inr ''{\"status\":200,\"result\":{\"longitude\":-0.127,\"latitude\":51.507}}''"
    and s: "StatusCode r = 200"
    by (simp_all add: r_def)
  have d: "decodePayload libmsg r =
     (zeroResult\<lparr>Longitude' := - (571957152676053 / 2 ^ 52),
                  Latitude' := 7248965812717879 / 2 ^ 47\<rparr>, None)"
    by (simp add: decodePayload_cases[OF b Decode_example] zeroPayload_def)
  from a have g: "geocodeURL pc = (url, None)" "http_Get url = Inr r" by (simp_all add: r_def)
  show "Geocode libmsg http_Get pc =
        (\<lparr>Longitude = - (571957152676053 / 2 ^ 52), Latitude = 7248965812717879 / 2 ^ 47\<rparr>,
         None)"
    by (simp add: Geocode_decoded[where http_Get = http_Get, OF g s] d)
next
  show "roundFloat64 127 1000 = Some (571957152676053 / 2 ^ 52)" by (rule nearest_float64)
next
  show "roundFloat64 51507 1000 = Some (7248965812717879 / 2 ^ 47)" by (rule nearest_float64)
next
  assume ok: "Geocode libmsg http_Get pc = (pt, None)"
  obtain url e where u: "geocodeURL pc = (url, e)" by (cases "geocodeURL pc")
  have e: "e = None"
  proof (cases e)
    case (Some err)
    with u ok Geocode_url_error[of pc url err libmsg http_Get] show ?thesis by simp
  qed simp
  with u have u: "geocodeURL pc = (url, None)" by simp
  obtain r where r: "http_Get url = Inr r"
  proof (cases "http_Get url")
    case (Inl err)
    with ok Geocode_transport_error[where http_Get = http_Get and libmsg = libmsg, OF u] show ?thesis by simp
  qed simp
  have s: "StatusCode r = 200"
  proof (rule ccontr)
    assume "StatusCode r \<noteq> 200"
    with ok Geocode_status_error[where http_Get = http_Get and libmsg = libmsg, OF u r] show False by simp
  qed
  from ok Geocode_decoded[where http_Get = http_Get and libmsg = libmsg, OF u r s]
  have pt: "pt = \<lparr>Longitude = Longitude' (fst (decodePayload libmsg r)),
                  Latitude = Latitude' (fst (decodePayload libmsg r))\<rparr>"
    and n: "snd (decodePayload libmsg r) = None"
    by simp_all
  obtain body where b: "Body r = Inr body"
  proof (cases "Body r")
    case (Inl err)
    with n decodePayload_read_error[of r err libmsg] show ?thesis by simp
  qed simp
  obtain p e' where d: "Decode body zeroPayload = (p, e')" by (cases "Decode body zeroPayload")
  note c = decodePayload_cases[OF b d, of libmsg]
  from n c have f: "(e' = None \<or> e' = Some EOF) \<and> Error' p = [] \<and> Status p = 200"
    by (auto split: if_splits)
  have "e' \<noteq> Some EOF"
  proof
    assume "e' = Some EOF"
    with d Decode_EOF have "p = zeroPayload" by blast
    with f show False by (simp add: zeroPayload_def)
  qed
  with f have e': "e' = None" by blast
  from c have "fst (decodePayload libmsg r) = Result p" by simp
  with pt have "pt = \<lparr>Longitude = Longitude' (Result p), Latitude = Latitude' (Result p)\<rparr>"
    by simp
  with u r s b d e' f show "\<exists>url r body p.
         geocodeURL pc = (url, None) \<and> http_Get url = Inr r \<and> StatusCode r = 200 \<and>
         Body r = Inr body \<and> Decode body zeroPayload = (p, None) \<and>
         Status p = 200 \<and> Error' p = [] \<and>
         pt = \<lparr>Longitude = Longitude' (Result p), Latitude = Latitude' (Result p)\<rparr>"
    by blast
qed

text \<open>The postcode \<^verbatim>\<open>SW1A 1AA\<close> with a transport that returns that response.\<close>

theorem Geocode_success_witness:
  "Geocode (\<lambda>e. [])
     (\<lambda>u. Inr \<lparr>StatusCode = 200,
                Body = Inr ''{\"status\":200,\"result\":{\"longitude\":-0.127,\"latitude\":51.507}}''\<rparr>)
     ''SW1A 1AA'' =
     (\<lparr>Longitude = - (571957152676053 / 2 ^ 52), Latitude = 7248965812717879 / 2 ^ 47\<rparr>, None) \<and>
   (\<exists>p. Decode ''{\"status\":200,\"result\":{\"longitude\":-0.127,\"latitude\":51.507}}'' zeroPayload
          = (p, None) \<and> Status p = 200 \<and> Error' p = [] \<and>
        Longitude' (Result p) = - (571957152676053 / 2 ^ 52) \<and>
        Latitude' (Result p) = 7248965812717879 / 2 ^ 47)"
proof -
  define get :: "string \<Rightarrow> error + Response" where
    "get = (\<lambda>u. Inr \<lparr>StatusCode = 200,
                Body = Inr ''{\"status\":200,\"result\":{\"longitude\":-0.127,\"latitude\":51.507}}''\<rparr>)"
  define pt :: GeoPoint where
    "pt = \<lparr>Longitude = - (571957152676053 / 2 ^ 52), Latitude = 7248965812717879 / 2 ^ 47\<rparr>"
  note t = Geocode_success[of "''SW1A 1AA''" "''https://api.postcodes.io/postcodes/SW1A%201AA''"
      get "\<lambda>e. []" pt]
  have h: "geocodeURL ''SW1A 1AA'' = (''https://api.postcodes.io/postcodes/SW1A%201AA'', None) \<and>
    get ''https://api.postcodes.io/postcodes/SW1A%201AA'' =
      Inr \<lparr>StatusCode = 200,
           Body = Inr ''{\"status\":200,\"result\":{\"longitude\":-0.127,\"latitude\":51.507}}''\<rparr>"
    using geocodeURL_SW1A by (simp add: get_def)
  from t h have g: "Geocode (\<lambda>e. []) get ''SW1A 1AA'' = (pt, None)" unfolding pt_def by blast
  with t obtain url r body p where
    x: "get url = Inr r" "Body r = Inr body" "Decode body zeroPayload = (p, None)"
      "Status p = 200" "Error' p = []"
      "pt = \<lparr>Longitude = Longitude' (Result p), Latitude = Latitude' (Result p)\<rparr>"
    by blast
  from x(1,2) have "body = ''{\"status\":200,\"result\":{\"longitude\":-0.127,\"latitude\":51.507}}''"
    by (auto simp: get_def)
  moreover from x(6) have "Longitude' (Result p) = - (571957152676053 / 2 ^ 52)"
    "Latitude' (Result p) = 7248965812717879 / 2 ^ 47"
    by (simp_all add: pt_def)
  ultimately show ?thesis using g x(3,4,5) unfolding get_def pt_def by blast
qed

text \<open>
  C5. For a body that decodes (no decoder error, or the swallowed \<^verbatim>\<open>io.EOF\<close>):
  when the envelope has a non-empty error text, \<open>decodePayload\<close> fails with that text
  as a plain error, whatever the embedded status is (this check comes first); when the
  error text is empty and the embedded status is not 200, it fails with the package error
  that \<open>errorFromHTTPCode\<close> gives for the embedded status; otherwise it succeeds.
\<close>

theorem decodePayload_envelope_errors:
  assumes "Body r = Inr body" and "Decode body zeroPayload = (p, e)"
    and "e = None \<or> e = Some EOF"
  shows "(Error' p \<noteq> [] \<longrightarrow>
            decodePayload libmsg r = (Result p, Some (ErrorString (Error' p)))) \<and>
         (Error' p = [] \<and> Status p \<noteq> 200 \<longrightarrow>
            decodePayload libmsg r =
              (Result p, Some (PkgError (errorFromHTTPCode (Status p))))) \<and>
         (Error' p = [] \<and> Status p = 200 \<longrightarrow> decodePayload libmsg r = (Result p, None))"
  using assms(3) by (auto simp: decodePayload_cases[OF assms(1,2)])

text \<open>
  The body \<^verbatim>\<open>{"status":404,"error":"not found"}\<close> (the error text wins), the body
  \<^verbatim>\<open>{"status":404}\<close> (the embedded status is classified), and \<open>Geocode\<close> on the first.
\<close>

theorem decodePayload_envelope_errors_witness:
  "decodePayload (\<lambda>e. []) \<lparr>StatusCode = 200, Body = Inr ''{\"status\":404,\"error\":\"not found\"}''\<rparr> =
     (zeroResult, Some (ErrorString ''not found'')) \<and>
   decodePayload (\<lambda>e. []) \<lparr>StatusCode = 200, Body = Inr ''{\"status\":404}''\<rparr> =
     (zeroResult, Some (PkgError NotFound)) \<and>
   Geocode (\<lambda>e. [])
     (\<lambda>u. Inr \<lparr>StatusCode = 200, Body = Inr ''{\"status\":404,\"error\":\"not found\"}''\<rparr>)
     ''SW1A 1AA'' =
     (\<lparr>Longitude = 0, Latitude = 0\<rparr>,
      Some (ErrorString ''postcodes.io: could not geocode postcode: not found''))"
proof -
  define r1 :: Response where
    "r1 = \<lparr>StatusCode = 200, Body = Inr ''{\"status\":404,\"error\":\"not found\"}''\<rparr>"
  define r2 :: Response where "r2 = \<lparr>StatusCode = 200, Body = Inr ''{\"status\":404}''\<rparr>"
  have b: "Body r1 = Inr ''{\"status\":404,\"error\":\"not found\"}''"
    "Body r2 = Inr ''{\"status\":404}''" "StatusCode r1 = 200"
    by (simp_all add: r1_def r2_def)
  have n: "(None :: error option) = None \<or> (None :: error option) = Some EOF" by simp
  note t1 = decodePayload_envelope_errors[OF b(1) Decode_not_found n, of "\<lambda>e. []"]
  note t2 = decodePayload_envelope_errors[OF b(2) Decode_status_only n, of "\<lambda>e. []"]
  have e: "errorFromHTTPCode 404 = NotFound" by (simp add: errorFromHTTPCode_def)
  from t1 have 1: "decodePayload (\<lambda>e. []) r1 = (zeroResult, Some (ErrorString ''not found''))"
    by (simp add: zeroPayload_def)
  from t2 e have 2: "decodePayload (\<lambda>e. []) r2 = (zeroResult, Some (PkgError NotFound))"
    by (simp add: zeroPayload_def)
  have g: "(\<lambda>u::string. Inr r1 :: error + Response) ''https://api.postcodes.io/postcodes/SW1A%201AA'' = Inr r1"
    by simp
  have 3: "Geocode (\<lambda>e. []) (\<lambda>u. Inr r1) ''SW1A 1AA'' =
     (\<lparr>Longitude = 0, Latitude = 0\<rparr>,
      Some (ErrorString ''postcodes.io: could not geocode postcode: not found''))"
    by (simp add: Geocode_decoded[OF geocodeURL_SW1A g b(3)] 1 zeroResult_def
        decorateGeocodingError_def error_Error_def)
  from 1 2 3 show ?thesis unfolding r1_def r2_def by blast
qed

text \<open>
  C4. A response with status 200 and an empty body: the decoder reports \<^verbatim>\<open>io.EOF\<close>,
  which \<open>decodePayload\<close> swallows; the envelope is still zero, so its status 0 is
  classified and \<open>decodePayload\<close> returns the zero result with \<open>InvalidError\<close>, not with
  no error.
\<close>

theorem decodePayload_empty_body:
  "Decode [] zeroPayload = (zeroPayload, Some EOF) \<and>
   decodePayload libmsg \<lparr>StatusCode = 200, Body = Inr []\<rparr> =
     (zeroResult, Some (PkgError InvalidError)) \<and>
   Geocode libmsg (\<lambda>u. Inr \<lparr>StatusCode = 200, Body = Inr []\<rparr>) ''SW1A 1AA'' =
     (\<lparr>Longitude = 0, Latitude = 0\<rparr>,
      Some (ErrorString (''postcodes.io: could not geocode postcode: '' @
              ''Invalid Error: Please report to poscodesio Go package maintainer'')))"
proof -
  define r :: Response where "r = \<lparr>StatusCode = 200, Body = Inr []\<rparr>"
  have b: "Body r = Inr []" "StatusCode r = 200" by (simp_all add: r_def)
  have 1: "decodePayload libmsg r = (zeroResult, Some (PkgError InvalidError))"
    by (simp add: decodePayload_cases[OF b(1) Decode_empty] zeroPayload_def errorFromHTTPCode_def)
  have g: "(\<lambda>u::string. Inr r :: error + Response) ''https://api.postcodes.io/postcodes/SW1A%201AA'' = Inr r"
    by simp
  have i: "Error_Error InvalidError = ''Invalid Error: Please report to poscodesio Go package maintainer''"
    by (simp add: Error_Error_def InvalidError_def NotFound_def BadRequest_def ServerError_def
        NoResults_def MultipleResults_def)
  have 2: "Geocode libmsg (\<lambda>u. Inr r) ''SW1A 1AA'' =
     (\<lparr>Longitude = 0, Latitude = 0\<rparr>,
      Some (ErrorString (''postcodes.io: could not geocode postcode: '' @
              ''Invalid Error: Please report to poscodesio Go package maintainer'')))"
    by (simp add: Geocode_decoded[OF geocodeURL_SW1A g b(2)] 1 zeroResult_def
        decorateGeocodingError_def error_Error_def i)
  from Decode_empty 1 2 show ?thesis unfolding r_def by blast
qed

lemma Decode_error_with_coordinates:
  "Decode ''{\"status\":404,\"error\":\"not found\",\"result\":{\"longitude\":1.5,\"latitude\":2.5}}''
     zeroPayload =
     (\<lparr>Status = 404, Result = zeroResult\<lparr>Longitude' := 3 / 2, Latitude' := 5 / 2\<rparr>,
       Error' = ''not found''\<rparr>, None)"
  by code_simp

lemma Decode_type_error_after_longitude:
  "Decode ''{\"status\":200,\"result\":{\"longitude\":1.5,\"latitude\":\"x\"}}'' zeroPayload =
     (\<lparr>Status = 200, Result = zeroResult\<lparr>Longitude' := 3 / 2\<rparr>, Error' = []\<rparr>,
      Some (UnmarshalTypeError ''string'' ''float64''))"
  by code_simp

text \<open>
  C3. Two failing calls that do not return the zero \<open>GeoPoint\<close>: a 200 response whose
  envelope carries an error text next to coordinates, and one whose latitude has the wrong
  type after a well-typed longitude. \<open>decodePayload\<close> returns what was decoded together
  with the error, and \<open>Geocode\<close> builds the \<open>GeoPoint\<close> from it.
\<close>

theorem Geocode_failure_with_coordinates:
  "Geocode libmsg
     (\<lambda>u. Inr \<lparr>StatusCode = 200,
                Body = Inr ''{\"status\":404,\"error\":\"not found\",\"result\":{\"longitude\":1.5,\"latitude\":2.5}}''\<rparr>)
     ''SW1A 1AA'' =
     (\<lparr>Longitude = 3 / 2, Latitude = 5 / 2\<rparr>,
      Some (ErrorString ''postcodes.io: could not geocode postcode: not found'')) \<and>
   Geocode libmsg
     (\<lambda>u. Inr \<lparr>StatusCode = 200,
                Body = Inr ''{\"status\":200,\"result\":{\"longitude\":1.5,\"latitude\":\"x\"}}''\<rparr>)
     ''SW1A 1AA'' =
     (\<lparr>Longitude = 3 / 2, Latitude = 0\<rparr>,
      Some (ErrorString (''postcodes.io: could not geocode postcode: '' @
              libmsg (UnmarshalTypeError ''string'' ''float64''))))"
proof -
  define r1 :: Response where "r1 = \<lparr>StatusCode = 200,
     Body = Inr ''{\"status\":404,\"error\":\"not found\",\"result\":{\"longitude\":1.5,\"latitude\":2.5}}''\<rparr>"
  define r2 :: Response where "r2 = \<lparr>StatusCode = 200,
     Body = Inr ''{\"status\":200,\"result\":{\"longitude\":1.5,\"latitude\":\"x\"}}''\<rparr>"
  have b: "Body r1 = Inr ''{\"status\":404,\"error\":\"not found\",\"result\":{\"longitude\":1.5,\"latitude\":2.5}}''"
    "Body r2 = Inr ''{\"status\":200,\"result\":{\"longitude\":1.5,\"latitude\":\"x\"}}''"
    "StatusCode r1 = 200" "StatusCode r2 = 200"
    by (simp_all add: r1_def r2_def)
  have g: "(\<lambda>u::string. Inr r1 :: error + Response) ''https://api.postcodes.io/postcodes/SW1A%201AA'' = Inr r1"
    "(\<lambda>u::string. Inr r2 :: error + Response) ''https://api.postcodes.io/postcodes/SW1A%201AA'' = Inr r2"
    by simp_all
  have 1: "Geocode libmsg (\<lambda>u. Inr r1) ''SW1A 1AA'' =
     (\<lparr>Longitude = 3 / 2, Latitude = 5 / 2\<rparr>,
      Some (ErrorString ''postcodes.io: could not geocode postcode: not found''))"
    by (simp add: Geocode_decoded[OF geocodeURL_SW1A g(1) b(3)]
        decodePayload_cases[OF b(1) Decode_error_with_coordinates] zeroResult_def
        decorateGeocodingError_def error_Error_def)
  have 2: "Geocode libmsg (\<lambda>u. Inr r2) ''SW1A 1AA'' =
     (\<lparr>Longitude = 3 / 2, Latitude = 0\<rparr>,
      Some (ErrorString (''postcodes.io: could not geocode postcode: '' @
              libmsg (UnmarshalTypeError ''string'' ''float64''))))"
    by (simp add: Geocode_decoded[OF geocodeURL_SW1A g(2) b(4)]
        decodePayload_cases[OF b(2) Decode_type_error_after_longitude] zeroResult_def
        decorateGeocodingError_def error_Error_def)
  from 1 2 show ?thesis unfolding r1_def r2_def by blast
qed

end
